theory Spec2Isabelle
  imports Complex_Main
begin

section \<open>Exceptions and values\<close>

text \<open>
  The exceptions that travel through \<^verbatim>\<open>sprockets_postgres.py\<close>. The classes of
  \<^verbatim>\<open>psycopg2\<close> are kept as far as the module tells them apart:
  \<^verbatim>\<open>errors.UniqueViolation\<close>, \<^verbatim>\<open>psycopg2.ProgrammingError\<close> (with its subclasses) and
  every other subclass of \<^verbatim>\<open>psycopg2.Error\<close>. \<open>TimeoutError\<close> is \<^verbatim>\<open>asyncio.TimeoutError\<close>.
  Every constructor carries the message that \<^verbatim>\<open>str()\<close> shows.
\<close>

datatype pg_class = UniqueViolation | ProgrammingError | OtherPgError

datatype exn =
    TimeoutError string
  | Psycopg2Error pg_class string
  | ConnectionException string
  | HTTPError int string
  | AttributeError string
  | TypeError string
  | ValueError string
  | RuntimeError string
  | OtherException string

fun isinstance_TimeoutError :: "exn \<Rightarrow> bool" where
  "isinstance_TimeoutError (TimeoutError _) = True"
| "isinstance_TimeoutError _ = False"

fun isinstance_psycopg2_Error :: "exn \<Rightarrow> bool" where
  "isinstance_psycopg2_Error (Psycopg2Error _ _) = True"
| "isinstance_psycopg2_Error _ = False"

fun isinstance_ProgrammingError :: "exn \<Rightarrow> bool" where
  "isinstance_ProgrammingError (Psycopg2Error ProgrammingError _) = True"
| "isinstance_ProgrammingError _ = False"

fun isinstance_UniqueViolation :: "exn \<Rightarrow> bool" where
  "isinstance_UniqueViolation (Psycopg2Error UniqueViolation _) = True"
| "isinstance_UniqueViolation _ = False"

fun isinstance_ConnectionException :: "exn \<Rightarrow> bool" where
  "isinstance_ConnectionException (ConnectionException _) = True"
| "isinstance_ConnectionException _ = False"

text \<open>The clause \<^verbatim>\<open>except (asyncio.TimeoutError, psycopg2.Error)\<close>.\<close>

definition timeout_or_driver_error :: "exn \<Rightarrow> bool" where
  "timeout_or_driver_error e \<longleftrightarrow> isinstance_TimeoutError e \<or> isinstance_psycopg2_Error e"

text \<open>
  \<^verbatim>\<open>str(err)\<close>. The module applies it to timeouts and driver errors only, whose text is
  their message; for an \<open>HTTPError\<close> the reason stands for the text.
\<close>

fun str :: "exn \<Rightarrow> string" where
  "str (TimeoutError m) = m"
| "str (Psycopg2Error _ m) = m"
| "str (ConnectionException m) = m"
| "str (HTTPError _ m) = m"
| "str (AttributeError m) = m"
| "str (TypeError m) = m"
| "str (ValueError m) = m"
| "str (RuntimeError m) = m"
| "str (OtherException m) = m"

datatype pyval = PyNone | PyInt int | PyStr string

text \<open>
  A \<^verbatim>\<open>RealDictRow\<close> of the driver and the plain \<^verbatim>\<open>dict\<close> made from it: the columns
  with their values, in the driver's column order. \<^verbatim>\<open>dict(row)\<close> copies the items.
\<close>

type_synonym RealDictRow = "(string \<times> pyval) list"
type_synonym pydict = "(string \<times> pyval) list"

definition dict :: "RealDictRow \<Rightarrow> pydict" where
  "dict r = r"

text \<open>\<^verbatim>\<open>QueryParameters = typing.Union[dict, list, tuple, None]\<close>\<close>

datatype QueryParameters = NoParameters | Positional "pyval list" | Named "(string \<times> pyval) list"

text \<open>\<^verbatim>\<open>Timeout = typing.Union[int, float, None]\<close>; numbers are read as reals.\<close>

type_synonym Timeout = "real option"

definition DEFAULT_POSTGRES_QUERY_TIMEOUT :: int where
  "DEFAULT_POSTGRES_QUERY_TIMEOUT = 120"

record QueryResult =
  row_count :: int
  row :: "pydict option"
  rows :: "pydict list option"

section \<open>The driver capability\<close>

text \<open>
  \<^verbatim>\<open>aiopg\<close> and \<^verbatim>\<open>psycopg2\<close> are not part of the module. What they answer is a
  parameter of the model: a \<open>driver\<close> gives, for the history of calls so far, whether
  acquiring a connection, opening a cursor, \<^verbatim>\<open>BEGIN\<close>, \<^verbatim>\<open>COMMIT\<close> or \<^verbatim>\<open>ROLLBACK\<close>
  raises, and what a statement does to the cursor. The calls made to the driver are
  recorded in a log, in order.
\<close>

datatype call = Execute string QueryParameters | Callproc string QueryParameters

record cursor_state =
  rowcount :: int
  fetchone :: "exn + RealDictRow option"
  fetchall :: "exn + RealDictRow list"

datatype event =
    PoolAcquire
  | PoolRelease
  | ConnCursor nat Timeout
  | CursorClose nat
  | CursorBegin nat
  | Commit nat
  | Rollback nat
  | CursorCall nat call real
  | FetchOne nat
  | FetchAll nat
  | PoolClose
  | PoolWaitClosed

record driver =
  acquire_raises :: "event list \<Rightarrow> exn option"
  cursor_raises :: "event list \<Rightarrow> exn option"
  begin_raises :: "event list \<Rightarrow> exn option"
  commit_raises :: "event list \<Rightarrow> exn option"
  rollback_raises :: "event list \<Rightarrow> exn option"
  call_response :: "event list \<Rightarrow> call \<Rightarrow> real \<Rightarrow> exn + cursor_state"

text \<open>
  The pool object: \<^verbatim>\<open>size\<close>, \<^verbatim>\<open>freesize\<close> and the two flags that \<^verbatim>\<open>close()\<close> and
  \<^verbatim>\<open>wait_closed()\<close> of \<^verbatim>\<open>aiopg.Pool\<close> maintain.
\<close>

record pool =
  size' :: nat
  freesize :: nat
  closing :: bool
  closed :: bool

text \<open>
  The world a call runs in: \<open>user\<close> is the state the callbacks see and change,
  \<open>clock\<close> is what \<^verbatim>\<open>time.monotonic()\<close> reads after so many driver calls,
  \<open>postgres_pool\<close> is \<^verbatim>\<open>ApplicationMixin._postgres_pool\<close> (\<open>None\<close> until the pool is
  set up), \<open>cursors\<close> holds the state of each cursor by its handle, \<open>environ\<close> is
  \<^verbatim>\<open>os.environ\<close> and \<open>int_of_str\<close> is Python's \<^verbatim>\<open>int()\<close> on a string (\<open>None\<close> where
  it raises \<^verbatim>\<open>ValueError\<close>).
\<close>

record 'u world =
  user :: 'u
  clock :: "nat \<Rightarrow> real"
  drv :: driver
  log :: "event list"
  postgres_pool :: "pool option"
  cursors :: "nat \<Rightarrow> cursor_state"
  environ :: "string \<rightharpoonup> string"
  int_of_str :: "string \<Rightarrow> int option"

definition monotonic :: "'u world \<Rightarrow> real" where
  "monotonic w = clock w (length (log w))"

definition emit :: "event \<Rightarrow> 'u world \<Rightarrow> 'u world" where
  "emit ev w = w\<lparr>log := log w @ [ev]\<rparr>"

text \<open>A cursor on which nothing has been executed has no result set.\<close>

definition fresh_cursor :: cursor_state where
  "fresh_cursor = \<lparr>rowcount = - 1,
     fetchone = Inl (Psycopg2Error ProgrammingError ''no results to fetch''),
     fetchall = Inl (Psycopg2Error ProgrammingError ''no results to fetch'')\<rparr>"

text \<open>
  \<^verbatim>\<open>pool.acquire()\<close> takes an idle connection, or opens one when none is idle.
  Leaving its scope calls \<^verbatim>\<open>Pool.release(conn)\<close>, which puts an open connection back
  among the idle ones and drops a connection that has been closed.
\<close>

definition take_connection :: "pool \<Rightarrow> pool" where
  "take_connection p =
     (if freesize p = 0 then p\<lparr>size' := size' p + 1\<rparr> else p\<lparr>freesize := freesize p - 1\<rparr>)"

definition give_connection :: "bool \<Rightarrow> pool \<Rightarrow> pool" where
  "give_connection conn_closed p =
     (if conn_closed then p\<lparr>size' := size' p - 1\<rparr> else p\<lparr>freesize := freesize p + 1\<rparr>)"

definition pool_acquire :: "'u world \<Rightarrow> (exn + unit) \<times> 'u world" where
  "pool_acquire w =
     (case acquire_raises (drv w) (log w) of
        Some e \<Rightarrow> (Inl e, emit PoolAcquire w)
      | None \<Rightarrow>
          (Inr (), emit PoolAcquire (w\<lparr>postgres_pool := map_option take_connection (postgres_pool w)\<rparr>)))"

definition pool_release :: "bool \<Rightarrow> 'u world \<Rightarrow> 'u world" where
  "pool_release conn_closed w =
     emit PoolRelease
       (w\<lparr>postgres_pool := map_option (give_connection conn_closed) (postgres_pool w)\<rparr>)"

text \<open>\<^verbatim>\<open>conn.cursor(cursor_factory=..., timeout=timeout)\<close>: the handle of the new cursor.\<close>

definition conn_cursor :: "Timeout \<Rightarrow> 'u world \<Rightarrow> (exn + nat) \<times> 'u world" where
  "conn_cursor t w =
     (let c = length (log w) in
      case cursor_raises (drv w) (log w) of
        Some e \<Rightarrow> (Inl e, emit (ConnCursor c t) w)
      | None \<Rightarrow> (Inr c, emit (ConnCursor c t) (w\<lparr>cursors := (cursors w)(c := fresh_cursor)\<rparr>)))"

definition cursor_close :: "nat \<Rightarrow> 'u world \<Rightarrow> 'u world" where
  "cursor_close c w = emit (CursorClose c) w"

text \<open>\<^verbatim>\<open>cursor.execute(...)\<close> and \<^verbatim>\<open>cursor.callproc(...)\<close> with the timeout they are given.\<close>

definition cursor_call :: "nat \<Rightarrow> call \<Rightarrow> real \<Rightarrow> 'u world \<Rightarrow> (exn + unit) \<times> 'u world" where
  "cursor_call c op t w =
     (case call_response (drv w) (log w) op t of
        Inl e \<Rightarrow> (Inl e, emit (CursorCall c op t) w)
      | Inr cs \<Rightarrow> (Inr (), emit (CursorCall c op t) (w\<lparr>cursors := (cursors w)(c := cs)\<rparr>)))"

definition cursor_fetchone :: "nat \<Rightarrow> 'u world \<Rightarrow> (exn + RealDictRow option) \<times> 'u world" where
  "cursor_fetchone c w = (fetchone (cursors w c), emit (FetchOne c) w)"

definition cursor_fetchall :: "nat \<Rightarrow> 'u world \<Rightarrow> (exn + RealDictRow list) \<times> 'u world" where
  "cursor_fetchall c w = (fetchall (cursors w c), emit (FetchAll c) w)"

text \<open>
  When a statement times out, the driver closes the connection before it raises
  \<^verbatim>\<open>asyncio.TimeoutError\<close>, and \<^verbatim>\<open>cursor.closed\<close> and \<^verbatim>\<open>conn.closed\<close> read true from
  then on. The log holds every call with its arguments and the driver answers by the
  history, so whether a call timed out is read off the log: \<open>timed_out d c evs ev\<close>
  says that the call \<open>ev\<close>, made on cursor \<open>c\<close> after the history \<open>evs\<close>, timed out, and
  the connection of a cursor is closed when a call on it has timed out since the cursor
  was opened.
\<close>

definition raises_timeout :: "exn option \<Rightarrow> bool" where
  "raises_timeout r = (case r of None \<Rightarrow> False | Some e \<Rightarrow> isinstance_TimeoutError e)"

fun timed_out :: "driver \<Rightarrow> nat \<Rightarrow> event list \<Rightarrow> event \<Rightarrow> bool" where
  "timed_out d c evs (CursorCall c' op t) =
     (c' = c \<and> (case call_response d evs op t of
                   Inl e \<Rightarrow> isinstance_TimeoutError e
                 | Inr _ \<Rightarrow> False))"
| "timed_out d c evs (CursorBegin c') = (c' = c \<and> raises_timeout (begin_raises d evs))"
| "timed_out d c evs (Commit c') = (c' = c \<and> raises_timeout (commit_raises d evs))"
| "timed_out d c evs (Rollback c') = (c' = c \<and> raises_timeout (rollback_raises d evs))"
| "timed_out d c evs _ = False"

fun opens :: "nat \<Rightarrow> event \<Rightarrow> bool" where
  "opens c (ConnCursor c' t) = (c' = c)"
| "opens c _ = False"

fun closed_after :: "driver \<Rightarrow> nat \<Rightarrow> event list \<Rightarrow> event list \<Rightarrow> bool \<Rightarrow> bool" where
  "closed_after d c evs [] b = b"
| "closed_after d c evs (ev # rest) b =
     closed_after d c (evs @ [ev]) rest
       (if opens c ev then False else b \<or> timed_out d c evs ev)"

definition connection_closed :: "nat \<Rightarrow> 'u world \<Rightarrow> bool" where
  "connection_closed c w = closed_after (drv w) c [] (log w) False"

text \<open>
  \<^verbatim>\<open>cursor.begin()\<close> is the driver's transaction scope: entering it issues \<^verbatim>\<open>BEGIN\<close>.
  Leaving it without an exception issues \<^verbatim>\<open>COMMIT\<close>. Leaving it with an exception
  calls the transaction's \<^verbatim>\<open>rollback()\<close>, which issues \<^verbatim>\<open>ROLLBACK\<close> unless the cursor
  is closed and sends nothing when it is; the exception then passes on.
\<close>

definition cursor_begin_enter :: "nat \<Rightarrow> 'u world \<Rightarrow> (exn + unit) \<times> 'u world" where
  "cursor_begin_enter c w =
     (case begin_raises (drv w) (log w) of
        Some e \<Rightarrow> (Inl e, emit (CursorBegin c) w)
      | None \<Rightarrow> (Inr (), emit (CursorBegin c) w))"

definition cursor_begin_exit :: "nat \<Rightarrow> exn + 'a \<Rightarrow> 'u world \<Rightarrow> (exn + 'a) \<times> 'u world" where
  "cursor_begin_exit c r w =
     (case r of
        Inl e \<Rightarrow>
          if connection_closed c w then (Inl e, w)
          else
            (case rollback_raises (drv w) (log w) of
               Some e' \<Rightarrow> (Inl e', emit (Rollback c) w)
             | None \<Rightarrow> (Inl e, emit (Rollback c) w))
      | Inr v \<Rightarrow>
          (case commit_raises (drv w) (log w) of
             Some e' \<Rightarrow> (Inl e', emit (Commit c) w)
           | None \<Rightarrow> (Inr v, emit (Commit c) w)))"

text \<open>
  \<^verbatim>\<open>Pool.close()\<close> does nothing on a closed pool and marks an open one as closing.
  \<^verbatim>\<open>Pool.wait_closed()\<close> returns at once on a closed pool, raises when \<^verbatim>\<open>close()\<close>
  was not called, and otherwise closes the idle connections and waits for the
  connections in use; with none in use it marks the pool closed, and with some in use
  it does not return until their scopes give them back, which is \<open>None\<close> here.
\<close>

definition pool_close :: "pool \<Rightarrow> pool" where
  "pool_close p = (if closed p then p else p\<lparr>closing := True\<rparr>)"

definition pool_wait_closed :: "pool \<Rightarrow> (exn + pool) option" where
  "pool_wait_closed p =
     (if closed p then Some (Inr p)
      else if \<not> closing p then
        Some (Inl (RuntimeError ''.wait_closed() should be called after .close()''))
      else if freesize p < size' p then None
      else Some (Inr (p\<lparr>size' := size' p - freesize p, freesize := 0, closed := True\<rparr>)))"

section \<open>PostgresConnector\<close>

text \<open>
  The callbacks. \<^verbatim>\<open>on_error(metric_name, err)\<close> returns an exception to raise or
  \<^verbatim>\<open>None\<close>, or raises by itself as the default policy does; \<^verbatim>\<open>on_duration(metric_name,
  duration)\<close> returns nothing. Both may change the state of their owner.
\<close>

datatype cb_result = Raises exn | Returns "exn option"

type_synonym 'u on_error_cb = "string \<Rightarrow> exn \<Rightarrow> 'u \<Rightarrow> cb_result \<times> 'u"
type_synonym 'u on_duration_cb = "string \<Rightarrow> real \<Rightarrow> 'u \<Rightarrow> 'u"

text \<open>
  The attributes \<^verbatim>\<open>cursor\<close>, \<^verbatim>\<open>_on_error\<close>, \<^verbatim>\<open>_on_duration\<close> and \<^verbatim>\<open>_timeout\<close>
  (a name cannot begin with an underscore here).
\<close>

record 'u PostgresConnector =
  cursor :: nat
  on_error :: "'u on_error_cb"
  on_duration :: "'u on_duration_cb option"
  timeout :: real

text \<open>
  \<^verbatim>\<open>int(os.environ.get('POSTGRES_QUERY_TIMEOUT', DEFAULT_POSTGRES_QUERY_TIMEOUT))\<close>
\<close>

definition environ_query_timeout :: "'u world \<Rightarrow> exn + real" where
  "environ_query_timeout w =
     (case environ w ''POSTGRES_QUERY_TIMEOUT'' of
        None \<Rightarrow> Inr (of_int DEFAULT_POSTGRES_QUERY_TIMEOUT)
      | Some s \<Rightarrow>
          (case int_of_str w s of
             None \<Rightarrow> Inl (ValueError ''invalid literal for int() with base 10'')
           | Some n \<Rightarrow> Inr (of_int n)))"

text \<open>Truth value of a \<open>Timeout\<close>: \<^verbatim>\<open>None\<close> and zero are false.\<close>

fun truthy :: "Timeout \<Rightarrow> bool" where
  "truthy None = False"
| "truthy (Some t) = (t \<noteq> 0)"

text \<open>\<^verbatim>\<open>PostgresConnector.__init__\<close>: \<^verbatim>\<open>self._timeout = timeout or int(...)\<close>.\<close>

definition PostgresConnector_init ::
  "nat \<Rightarrow> 'u on_error_cb \<Rightarrow> 'u on_duration_cb option \<Rightarrow> Timeout \<Rightarrow> 'u world
     \<Rightarrow> exn + 'u PostgresConnector" where
  "PostgresConnector_init c on_err on_dur t w =
     (case (case t of
              Some x \<Rightarrow> if truthy t then Inr x else environ_query_timeout w
            | None \<Rightarrow> environ_query_timeout w) of
        Inl e \<Rightarrow> Inl e
      | Inr x \<Rightarrow> Inr \<lparr>cursor = c, on_error = on_err, on_duration = on_dur, timeout = x\<rparr>)"

text \<open>\<^verbatim>\<open>PostgresConnector._query_results\<close>\<close>

definition query_results ::
  "'u PostgresConnector \<Rightarrow> 'u world \<Rightarrow> (exn + QueryResult) \<times> 'u world" where
  "query_results self w =
     (let count = rowcount (cursors w (cursor self)) in
      if rowcount (cursors w (cursor self)) = 1 then
        (case cursor_fetchone (cursor self) w of
           (Inl e, w1) \<Rightarrow>
             if isinstance_ProgrammingError e
             then (Inr \<lparr>row_count = count, row = None, rows = None\<rparr>, w1)
             else (Inl e, w1)
         | (Inr None, w1) \<Rightarrow> (Inl (TypeError ''NoneType object is not iterable''), w1)
         | (Inr (Some r), w1) \<Rightarrow>
             (Inr \<lparr>row_count = count, row = Some (dict r), rows = None\<rparr>, w1))
      else if rowcount (cursors w (cursor self)) > 1 then
        (case cursor_fetchall (cursor self) w of
           (Inl e, w1) \<Rightarrow>
             if isinstance_ProgrammingError e
             then (Inr \<lparr>row_count = count, row = None, rows = None\<rparr>, w1)
             else (Inl e, w1)
         | (Inr rs, w1) \<Rightarrow>
             (Inr \<lparr>row_count = count, row = None, rows = Some (map dict rs)\<rparr>, w1))
      else (Inr \<lparr>row_count = count, row = None, rows = None\<rparr>, w))"

text \<open>
  \<^verbatim>\<open>PostgresConnector._query\<close>. The driver method and its keyword arguments are the
  \<open>call\<close> and the \<open>Timeout\<close>; the result is \<open>None\<close> where the Python function falls off
  its end.
\<close>

definition query ::
  "'u PostgresConnector \<Rightarrow> call \<Rightarrow> string \<Rightarrow> Timeout \<Rightarrow> 'u world
     \<Rightarrow> (exn + QueryResult option) \<times> 'u world" where
  "query self method metric_name t w =
     (let t' = (case t of None \<Rightarrow> timeout self | Some x \<Rightarrow> x);
          start_time = monotonic w
      in case cursor_call (cursor self) method t' w of
           (Inl err, w1) \<Rightarrow>
             if timeout_or_driver_error err then
               (case on_error self metric_name err (user w1) of
                  (Raises exc, u) \<Rightarrow> (Inl exc, w1\<lparr>user := u\<rparr>)
                | (Returns (Some exc), u) \<Rightarrow> (Inl exc, w1\<lparr>user := u\<rparr>)
                | (Returns None, u) \<Rightarrow> (Inr None, w1\<lparr>user := u\<rparr>))
             else (Inl err, w1)
         | (Inr _, w1) \<Rightarrow>
             (case query_results self w1 of
                (Inl e, w2) \<Rightarrow> (Inl e, w2)
              | (Inr results, w2) \<Rightarrow>
                  (case on_duration self of
                     None \<Rightarrow> (Inr (Some results), w2)
                   | Some f \<Rightarrow>
                       (Inr (Some results),
                        w2\<lparr>user := f metric_name (monotonic w2 - start_time) (user w2)\<rparr>))))"

definition callproc ::
  "'u PostgresConnector \<Rightarrow> string \<Rightarrow> QueryParameters \<Rightarrow> string \<Rightarrow> Timeout \<Rightarrow> 'u world
     \<Rightarrow> (exn + QueryResult option) \<times> 'u world" where
  "callproc self name parameters metric_name t w =
     query self (Callproc name parameters) metric_name t w"

definition execute ::
  "'u PostgresConnector \<Rightarrow> string \<Rightarrow> QueryParameters \<Rightarrow> string \<Rightarrow> Timeout \<Rightarrow> 'u world
     \<Rightarrow> (exn + QueryResult option) \<times> 'u world" where
  "execute self sql parameters metric_name t w =
     query self (Execute sql parameters) metric_name t w"

text \<open>
  \<^verbatim>\<open>PostgresConnector.transaction\<close>: \<^verbatim>\<open>async with self.cursor.begin(): yield self\<close>.
  The statements of the scope are the \<open>body\<close>, which is handed the connector.
\<close>

definition transaction ::
  "'u PostgresConnector \<Rightarrow> ('u PostgresConnector \<Rightarrow> 'u world \<Rightarrow> (exn + 'a) \<times> 'u world)
     \<Rightarrow> 'u world \<Rightarrow> (exn + 'a) \<times> 'u world" where
  "transaction self body w =
     (case cursor_begin_enter (cursor self) w of
        (Inl e, w1) \<Rightarrow> (Inl e, w1)
      | (Inr _, w1) \<Rightarrow>
          (case body self w1 of (r, w2) \<Rightarrow> cursor_begin_exit (cursor self) r w2))"

section \<open>ApplicationMixin\<close>

definition POSTGRES_STATUS_TIMEOUT :: real where
  "POSTGRES_STATUS_TIMEOUT = 3"

text \<open>
  \<^verbatim>\<open>ApplicationMixin.postgres_connector\<close> is a generator-based scope; the statements of
  the \<^verbatim>\<open>async with\<close> block that uses it are the \<open>body\<close>, which is handed what the
  generator yields. \<open>acquire_scope\<close> is the \<^verbatim>\<open>try\<close> block: it ends before the
  \<^verbatim>\<open>yield\<close> with an exception (\<open>Unentered\<close>), or the body has run and the cursor and
  the connection have been given back (\<open>Left\<close>). Without a pool, \<^verbatim>\<open>None.acquire\<close> is an
  \<^verbatim>\<open>AttributeError\<close>. A connection on which no statement has run is released open.
\<close>

datatype 'a scope = Unentered exn | Left "exn + 'a"

definition acquire_scope ::
  "'u on_error_cb \<Rightarrow> 'u on_duration_cb option \<Rightarrow> Timeout
     \<Rightarrow> ('u PostgresConnector option \<Rightarrow> 'u world \<Rightarrow> (exn + 'a) \<times> 'u world)
     \<Rightarrow> 'u world \<Rightarrow> 'a scope \<times> 'u world" where
  "acquire_scope on_err on_dur t body w =
     (case postgres_pool w of
        None \<Rightarrow> (Unentered (AttributeError ''NoneType object has no attribute acquire''), w)
      | Some _ \<Rightarrow>
          (case pool_acquire w of
             (Inl e, w1) \<Rightarrow> (Unentered e, w1)
           | (Inr _, w1) \<Rightarrow>
               (case conn_cursor t w1 of
                  (Inl e, w2) \<Rightarrow> (Unentered e, pool_release False w2)
                | (Inr c, w2) \<Rightarrow>
                    (case PostgresConnector_init c on_err on_dur t w2 of
                       Inl e \<Rightarrow> (Unentered e, pool_release False (cursor_close c w2))
                     | Inr connector \<Rightarrow>
                         (case body (Some connector) w2 of
                            (r, w3) \<Rightarrow>
                              (Left r,
                               pool_release (connection_closed c w3) (cursor_close c w3)))))))"

text \<open>
  The \<^verbatim>\<open>except (asyncio.TimeoutError, psycopg2.Error)\<close> clause around it. An exception
  that the body raised arrives at the first \<^verbatim>\<open>yield\<close>; when the handler then reaches
  \<^verbatim>\<open>yield None\<close>, the generator has yielded twice and \<^verbatim>\<open>contextlib\<close> raises
  \<^verbatim>\<open>RuntimeError\<close>.
\<close>

definition postgres_connector ::
  "'u on_error_cb \<Rightarrow> 'u on_duration_cb option \<Rightarrow> Timeout
     \<Rightarrow> ('u PostgresConnector option \<Rightarrow> 'u world \<Rightarrow> (exn + 'a) \<times> 'u world)
     \<Rightarrow> 'u world \<Rightarrow> (exn + 'a) \<times> 'u world" where
  "postgres_connector on_err on_dur t body w =
     (case acquire_scope on_err on_dur t body w of
        (Left (Inr v), w1) \<Rightarrow> (Inr v, w1)
      | (Left (Inl err), w1) \<Rightarrow>
          if timeout_or_driver_error err then
            (case on_err ''postgres_connector'' (ConnectionException (str err)) (user w1) of
               (Raises exc, u) \<Rightarrow> (Inl exc, w1\<lparr>user := u\<rparr>)
             | (Returns (Some exc), u) \<Rightarrow> (Inl exc, w1\<lparr>user := u\<rparr>)
             | (Returns None, u) \<Rightarrow>
                 (Inl (RuntimeError ''generator didn't stop after athrow()''), w1\<lparr>user := u\<rparr>))
          else (Inl err, w1)
      | (Unentered err, w1) \<Rightarrow>
          if timeout_or_driver_error err then
            (case on_err ''postgres_connector'' (ConnectionException (str err)) (user w1) of
               (Raises exc, u) \<Rightarrow> (Inl exc, w1\<lparr>user := u\<rparr>)
             | (Returns (Some exc), u) \<Rightarrow> (Inl exc, w1\<lparr>user := u\<rparr>)
             | (Returns None, u) \<Rightarrow> body None (w1\<lparr>user := u\<rparr>))
          else (Inl err, w1))"

text \<open>
  \<^verbatim>\<open>ApplicationMixin.postgres_status\<close>. Its \<^verbatim>\<open>on_error\<close> closes over the event
  \<^verbatim>\<open>query_error\<close>, which is the state of the callbacks while the status runs.
\<close>

record status =
  available :: bool
  pool_size :: nat
  pool_free :: nat

definition with_user :: "'v \<Rightarrow> 'u world \<Rightarrow> 'v world" where
  "with_user v w =
     \<lparr>user = v, clock = clock w, drv = drv w, log = log w, postgres_pool = postgres_pool w,
      cursors = cursors w, environ = environ w, int_of_str = int_of_str w\<rparr>"

definition status_on_error :: "bool on_error_cb" where
  "status_on_error metric_name exc query_error = (Returns None, True)"

definition status_body ::
  "bool PostgresConnector option \<Rightarrow> bool world \<Rightarrow> (exn + unit) \<times> bool world" where
  "status_body connector w =
     (case connector of
        None \<Rightarrow> (Inr (), w)
      | Some c \<Rightarrow>
          (case execute c ''SELECT 1'' NoParameters [] None w of
             (Inl e, w1) \<Rightarrow> (Inl e, w1)
           | (Inr _, w1) \<Rightarrow> (Inr (), w1)))"

definition postgres_status :: "'u world \<Rightarrow> (exn + status) \<times> 'u world" where
  "postgres_status w =
     (case postgres_connector status_on_error None (Some POSTGRES_STATUS_TIMEOUT) status_body
             (with_user False w) of
        (Inl e, w1) \<Rightarrow> (Inl e, with_user (user w) w1)
      | (Inr _, w1) \<Rightarrow>
          (case postgres_pool w1 of
             None \<Rightarrow>
               (Inl (AttributeError ''NoneType object has no attribute size''),
                with_user (user w) w1)
           | Some p \<Rightarrow>
               (Inr \<lparr>available = \<not> user w1, pool_size = size' p, pool_free = freesize p\<rparr>,
                with_user (user w) w1)))"

text \<open>
  \<^verbatim>\<open>ApplicationMixin._postgres_shutdown\<close>. The result is \<open>None\<close> when
  \<^verbatim>\<open>wait_closed()\<close> does not return.
\<close>

definition postgres_shutdown :: "'u world \<Rightarrow> ((exn + unit) \<times> 'u world) option" where
  "postgres_shutdown w =
     (case postgres_pool w of
        None \<Rightarrow> Some (Inr (), w)
      | Some p \<Rightarrow>
          (case pool_wait_closed (pool_close p) of
             None \<Rightarrow> None
           | Some (Inl e) \<Rightarrow>
               Some (Inl e,
                 emit PoolWaitClosed (emit PoolClose (w\<lparr>postgres_pool := Some (pool_close p)\<rparr>)))
           | Some (Inr p') \<Rightarrow>
               Some (Inr (),
                 emit PoolWaitClosed (emit PoolClose (w\<lparr>postgres_pool := Some p'\<rparr>)))))"

section \<open>RequestHandlerMixin\<close>

text \<open>
  \<^verbatim>\<open>RequestHandlerMixin._on_postgres_error\<close>, the default policy, after its log line.
  It raises the \<^verbatim>\<open>web.HTTPError\<close> itself and returns only what it does not recognise.
\<close>

definition on_postgres_error :: "string \<Rightarrow> exn \<Rightarrow> cb_result" where
  "on_postgres_error metric_name exc =
     (if isinstance_ConnectionException exc then
        Raises (HTTPError 503 ''Database Connection Error'')
      else if isinstance_TimeoutError exc then
        Raises (HTTPError 500 ''Query Timeout'')
      else if isinstance_UniqueViolation exc then
        Raises (HTTPError 409 ''Unique Violation'')
      else if isinstance_psycopg2_Error exc then
        Raises (HTTPError 500 ''Database Error'')
      else Returns (Some exc))"

text \<open>
  A request handler is its two policies, which a subclass may override:
  \<^verbatim>\<open>_on_postgres_error\<close> and \<^verbatim>\<open>_on_postgres_timing\<close>.
\<close>

record 'u RequestHandlerMixin =
  handler_on_postgres_error :: "'u on_error_cb"
  handler_on_postgres_timing :: "'u on_duration_cb"

definition default_on_postgres_error :: "'u on_error_cb" where
  "default_on_postgres_error metric_name exc u = (on_postgres_error metric_name exc, u)"

definition need_connector ::
  "('u PostgresConnector \<Rightarrow> 'u world \<Rightarrow> (exn + 'a) \<times> 'u world)
     \<Rightarrow> 'u PostgresConnector option \<Rightarrow> 'u world \<Rightarrow> (exn + 'a) \<times> 'u world" where
  "need_connector f connector w =
     (case connector of
        None \<Rightarrow> (Inl (AttributeError ''NoneType object has no such attribute''), w)
      | Some c \<Rightarrow> f c w)"

definition postgres_callproc ::
  "'u RequestHandlerMixin \<Rightarrow> string \<Rightarrow> QueryParameters \<Rightarrow> string \<Rightarrow> Timeout \<Rightarrow> 'u world
     \<Rightarrow> (exn + QueryResult option) \<times> 'u world" where
  "postgres_callproc self name parameters metric_name t w =
     postgres_connector (handler_on_postgres_error self) (Some (handler_on_postgres_timing self)) t
       (need_connector (\<lambda>connector. callproc connector name parameters metric_name t)) w"

definition postgres_execute ::
  "'u RequestHandlerMixin \<Rightarrow> string \<Rightarrow> QueryParameters \<Rightarrow> string \<Rightarrow> Timeout \<Rightarrow> 'u world
     \<Rightarrow> (exn + QueryResult option) \<times> 'u world" where
  "postgres_execute self sql parameters metric_name t w =
     postgres_connector (handler_on_postgres_error self) (Some (handler_on_postgres_timing self)) t
       (need_connector (\<lambda>connector. execute connector sql parameters metric_name t)) w"

definition postgres_transaction ::
  "'u RequestHandlerMixin \<Rightarrow> Timeout
     \<Rightarrow> ('u PostgresConnector \<Rightarrow> 'u world \<Rightarrow> (exn + 'a) \<times> 'u world)
     \<Rightarrow> 'u world \<Rightarrow> (exn + 'a) \<times> 'u world" where
  "postgres_transaction self t body w =
     postgres_connector (handler_on_postgres_error self) (Some (handler_on_postgres_timing self)) t
       (need_connector (\<lambda>connector. transaction connector body)) w"

section \<open>Concrete drivers and worlds\<close>

text \<open>Inputs on which the theorems below are run.\<close>

definition row_a :: RealDictRow where
  "row_a = [(''id'', PyInt 1)]"

definition row_b :: RealDictRow where
  "row_b = [(''id'', PyInt 2)]"

definition one_row :: cursor_state where
  "one_row = \<lparr>rowcount = 1, fetchone = Inr (Some row_a), fetchall = Inr [row_a]\<rparr>"

definition two_rows :: cursor_state where
  "two_rows = \<lparr>rowcount = 2, fetchone = Inr (Some row_a), fetchall = Inr [row_a, row_b]\<rparr>"

definition no_rows :: cursor_state where
  "no_rows = \<lparr>rowcount = 0, fetchone = Inr None, fetchall = Inr []\<rparr>"

definition written :: cursor_state where
  "written = \<lparr>rowcount = 1,
     fetchone = Inl (Psycopg2Error ProgrammingError ''no results to fetch''),
     fetchall = Inl (Psycopg2Error ProgrammingError ''no results to fetch'')\<rparr>"

definition answer :: "call \<Rightarrow> exn + cursor_state" where
  "answer op =
     (case op of
        Execute sql _ \<Rightarrow>
          (if sql = ''SELECT 1'' then Inr one_row
           else if sql = ''SELECT id FROM t'' then Inr two_rows
           else if sql = ''INSERT INTO t(id) VALUES (%s)'' then Inr written
           else if sql = ''SELECT pg_sleep(600)'' then Inl (TimeoutError [])
           else Inl (Psycopg2Error OtherPgError ''syntax error''))
      | Callproc name _ \<Rightarrow> Inr no_rows)"

definition good_driver :: driver where
  "good_driver =
     \<lparr>acquire_raises = (\<lambda>_. None), cursor_raises = (\<lambda>_. None), begin_raises = (\<lambda>_. None),
      commit_raises = (\<lambda>_. None), rollback_raises = (\<lambda>_. None),
      call_response = (\<lambda>_ op _. answer op)\<rparr>"

definition down_driver :: driver where
  "down_driver =
     good_driver\<lparr>acquire_raises :=
       (\<lambda>_. Some (Psycopg2Error OtherPgError ''could not connect to server''))\<rparr>"

definition record_duration :: "(string \<times> real) list on_duration_cb" where
  "record_duration metric_name duration u = u @ [(metric_name, duration)]"

definition swallow :: "'u on_error_cb" where
  "swallow metric_name exc u = (Returns None, u)"

definition hand_back :: "'u on_error_cb" where
  "hand_back metric_name exc u = (Returns (Some exc), u)"

definition open_pool :: pool where
  "open_pool = \<lparr>size' = 1, freesize = 1, closing = False, closed = False\<rparr>"

definition world_up :: "(string \<times> real) list world" where
  "world_up =
     \<lparr>user = [], clock = (\<lambda>n. of_nat n), drv = good_driver, log = [],
      postgres_pool = Some open_pool, cursors = (\<lambda>_. fresh_cursor), environ = Map.empty,
      int_of_str = (\<lambda>_. None)\<rparr>"

definition world_down :: "(string \<times> real) list world" where
  "world_down = world_up\<lparr>drv := down_driver\<rparr>"

definition world_unstarted :: "(string \<times> real) list world" where
  "world_unstarted = world_up\<lparr>postgres_pool := None\<rparr>"

definition connector0 :: "(string \<times> real) list PostgresConnector" where
  "connector0 =
     \<lparr>cursor = 0, on_error = default_on_postgres_error, on_duration = Some record_duration,
      timeout = 120\<rparr>"

text \<open>The timeouts handed to the driver's execute and callproc, read off a log.\<close>

fun call_timeouts :: "event list \<Rightarrow> real list" where
  "call_timeouts [] = []"
| "call_timeouts (CursorCall c op t # evs) = t # call_timeouts evs"
| "call_timeouts (ev # evs) = call_timeouts evs"

definition connector1 :: "(string \<times> real) list PostgresConnector" where
  "connector1 =
     \<lparr>cursor = 0, on_error = hand_back, on_duration = Some record_duration, timeout = 120\<rparr>"

definition connector2 :: "(string \<times> real) list PostgresConnector" where
  "connector2 =
     \<lparr>cursor = 0, on_error = swallow, on_duration = Some record_duration, timeout = 120\<rparr>"

text \<open>Whether the pool object exists and has been closed.\<close>

definition pool_is_closed :: "'u world \<Rightarrow> bool" where
  "pool_is_closed w = (case postgres_pool w of None \<Rightarrow> False | Some p \<Rightarrow> closed p)"

text \<open>A scope body that reports whether it was handed a connector.\<close>

definition probe :: "'u PostgresConnector option \<Rightarrow> 'u world \<Rightarrow> (exn + bool) \<times> 'u world" where
  "probe connector w = (Inr (connector \<noteq> None), w)"

text \<open>
  Transaction bodies: two inserts, an insert followed by a statement that the database
  rejects, and an insert followed by a statement that times out.
\<close>

definition two_inserts ::
  "(string \<times> real) list PostgresConnector \<Rightarrow> (string \<times> real) list world
     \<Rightarrow> (exn + QueryResult option) \<times> (string \<times> real) list world" where
  "two_inserts connector w =
     (case execute connector ''INSERT INTO t(id) VALUES (%s)'' (Positional [PyInt 1]) ''insert''
             None w of
        (Inl e, w1) \<Rightarrow> (Inl e, w1)
      | (Inr _, w1) \<Rightarrow>
          execute connector ''INSERT INTO t(id) VALUES (%s)'' (Positional [PyInt 2]) ''insert''
            None w1)"

definition insert_then_fail ::
  "(string \<times> real) list PostgresConnector \<Rightarrow> (string \<times> real) list world
     \<Rightarrow> (exn + QueryResult option) \<times> (string \<times> real) list world" where
  "insert_then_fail connector w =
     (case execute connector ''INSERT INTO t(id) VALUES (%s)'' (Positional [PyInt 1]) ''insert''
             None w of
        (Inl e, w1) \<Rightarrow> (Inl e, w1)
      | (Inr _, w1) \<Rightarrow> execute connector ''SELEC'' NoParameters ''typo'' None w1)"

definition insert_then_timeout ::
  "(string \<times> real) list PostgresConnector \<Rightarrow> (string \<times> real) list world
     \<Rightarrow> (exn + QueryResult option) \<times> (string \<times> real) list world" where
  "insert_then_timeout connector w =
     (case execute connector ''INSERT INTO t(id) VALUES (%s)'' (Positional [PyInt 1]) ''insert''
             None w of
        (Inl e, w1) \<Rightarrow> (Inl e, w1)
      | (Inr _, w1) \<Rightarrow> execute connector ''SELECT pg_sleep(600)'' NoParameters ''sleep'' None w1)"

definition default_handler :: "(string \<times> real) list RequestHandlerMixin" where
  "default_handler =
     \<lparr>handler_on_postgres_error = default_on_postgres_error,
      handler_on_postgres_timing = record_duration\<rparr>"

text \<open>A driver whose statement succeeds and whose fetch then raises a driver error.\<close>

definition lost_result :: cursor_state where
  "lost_result = \<lparr>rowcount = 1,
     fetchone = Inl (Psycopg2Error OtherPgError ''cursor already closed''),
     fetchall = Inl (Psycopg2Error OtherPgError ''cursor already closed'')\<rparr>"

definition world_lost :: "(string \<times> real) list world" where
  "world_lost = world_up\<lparr>drv := good_driver\<lparr>call_response := (\<lambda>_ _ _. Inr lost_result)\<rparr>\<rparr>"

text \<open>A driver on which every statement times out.\<close>

definition world_slow :: "(string \<times> real) list world" where
  "world_slow =
     world_up\<lparr>drv := good_driver\<lparr>call_response := (\<lambda>_ _ _. Inl (TimeoutError []))\<rparr>\<rparr>"

section \<open>Properties\<close>

subsection \<open>Result shaping and the default error policy\<close>

text \<open>
  Claim C1. \<^verbatim>\<open>_query_results\<close> shapes what the cursor holds: with a row count of one
  and a row fetched, \<open>row\<close> is that row's mapping and \<open>rows\<close> is unset; with a row count
  above one and the rows fetched, \<open>rows\<close> is their mappings in the driver's order (as
  many as the row count when the driver returns that many) and \<open>row\<close> is unset; with a
  row count of zero both are unset; \<open>row\<close> and \<open>rows\<close> are never both set; and when
  the fetch raises \<^verbatim>\<open>psycopg2.ProgrammingError\<close> (no result set) the field stays unset
  and the result is still returned.
\<close>

theorem C1_query_results_shape:
  fixes self :: "'u PostgresConnector" and w :: "'u world"
  shows "(rowcount (cursors w (cursor self)) = 1 \<longrightarrow>
       (\<forall>r. fetchone (cursors w (cursor self)) = Inr (Some r) \<longrightarrow>
          fst (query_results self w) = Inr \<lparr>row_count = 1, row = Some (dict r), rows = None\<rparr>))
   \<and> (rowcount (cursors w (cursor self)) > 1 \<longrightarrow>
       (\<forall>rs. fetchall (cursors w (cursor self)) = Inr rs \<longrightarrow>
          fst (query_results self w) =
            Inr \<lparr>row_count = rowcount (cursors w (cursor self)), row = None,
                 rows = Some (map dict rs)\<rparr>
          \<and> (int (length rs) = rowcount (cursors w (cursor self)) \<longrightarrow>
               int (length (map dict rs)) = rowcount (cursors w (cursor self)))))
   \<and> (rowcount (cursors w (cursor self)) = 0 \<longrightarrow>
         fst (query_results self w) = Inr \<lparr>row_count = 0, row = None, rows = None\<rparr>)
   \<and> (\<forall>q. fst (query_results self w) = Inr q \<longrightarrow> row q = None \<or> rows q = None)
   \<and> (\<forall>e. isinstance_ProgrammingError e \<longrightarrow>
         (rowcount (cursors w (cursor self)) = 1 \<and> fetchone (cursors w (cursor self)) = Inl e
          \<or> rowcount (cursors w (cursor self)) > 1 \<and> fetchall (cursors w (cursor self)) = Inl e) \<longrightarrow>
         fst (query_results self w) =
           Inr \<lparr>row_count = rowcount (cursors w (cursor self)), row = None, rows = None\<rparr>)"
  by (auto simp: query_results_def cursor_fetchone_def cursor_fetchall_def Let_def
        split: sum.splits option.splits if_splits)

theorem C1_query_results_shape_witness:
  "fst (query_results connector0 (world_up\<lparr>cursors := (\<lambda>_. one_row)\<rparr>))
     = Inr \<lparr>row_count = 1, row = Some [(''id'', PyInt 1)], rows = None\<rparr>
   \<and> fst (query_results connector0 (world_up\<lparr>cursors := (\<lambda>_. two_rows)\<rparr>))
     = Inr \<lparr>row_count = 2, row = None, rows = Some [[(''id'', PyInt 1)], [(''id'', PyInt 2)]]\<rparr>
   \<and> fst (query_results connector0 (world_up\<lparr>cursors := (\<lambda>_. no_rows)\<rparr>))
     = Inr \<lparr>row_count = 0, row = None, rows = None\<rparr>
   \<and> fst (query_results connector0 (world_up\<lparr>cursors := (\<lambda>_. written)\<rparr>))
     = Inr \<lparr>row_count = 1, row = None, rows = None\<rparr>"
  using C1_query_results_shape [of "world_up\<lparr>cursors := (\<lambda>_. one_row)\<rparr>" connector0]
        C1_query_results_shape [of "world_up\<lparr>cursors := (\<lambda>_. two_rows)\<rparr>" connector0]
        C1_query_results_shape [of "world_up\<lparr>cursors := (\<lambda>_. no_rows)\<rparr>" connector0]
        C1_query_results_shape [of "world_up\<lparr>cursors := (\<lambda>_. written)\<rparr>" connector0]
  by (simp add: world_up_def one_row_def two_rows_def no_rows_def written_def row_a_def
        row_b_def dict_def)

text \<open>
  Claim C7. The default error policy \<^verbatim>\<open>_on_postgres_error\<close> answers a
  \<^verbatim>\<open>ConnectionException\<close> with an HTTP error of status 503, a timeout with status 500,
  a unique violation with status 409 and any other driver error with status 500; an
  exception of no such class is returned as it is, for the caller to raise.
\<close>

theorem C7_default_error_policy:
  "on_postgres_error m (ConnectionException s) = Raises (HTTPError 503 ''Database Connection Error'')
   \<and> on_postgres_error m (TimeoutError s) = Raises (HTTPError 500 ''Query Timeout'')
   \<and> on_postgres_error m (Psycopg2Error UniqueViolation s)
       = Raises (HTTPError 409 ''Unique Violation'')
   \<and> (c \<noteq> UniqueViolation \<longrightarrow>
         on_postgres_error m (Psycopg2Error c s) = Raises (HTTPError 500 ''Database Error''))
   \<and> (\<not> isinstance_ConnectionException e \<and> \<not> isinstance_TimeoutError e
        \<and> \<not> isinstance_psycopg2_Error e \<longrightarrow>
         on_postgres_error m e = Returns (Some e))"
  by (cases c; cases e) (simp_all add: on_postgres_error_def)

theorem C7_default_error_policy_witness:
  "on_postgres_error ''insert'' (Psycopg2Error ProgrammingError ''syntax error'')
     = Raises (HTTPError 500 ''Database Error'')
   \<and> on_postgres_error ''insert'' (ValueError ''bad value'')
     = Returns (Some (ValueError ''bad value''))"
  using C7_default_error_policy [where c = ProgrammingError and e = "ValueError ''bad value''"
      and m = "''insert''" and s = "''syntax error''"]
  by simp

subsection \<open>Helper facts\<close>

lemma emit_fields:
  "user (emit ev w) = user w" "log (emit ev w) = log w @ [ev]" "drv (emit ev w) = drv w"
  "postgres_pool (emit ev w) = postgres_pool w" "cursors (emit ev w) = cursors w"
  "clock (emit ev w) = clock w" "environ (emit ev w) = environ w"
  "int_of_str (emit ev w) = int_of_str w"
  by (simp_all add: emit_def)

lemma call_timeouts_append: "call_timeouts (xs @ ys) = call_timeouts xs @ call_timeouts ys"
  by (induction xs rule: call_timeouts.induct) simp_all

lemma call_timeouts_query_results:
  "call_timeouts (log (snd (query_results self w))) = call_timeouts (log w)"
  by (auto simp: query_results_def cursor_fetchone_def cursor_fetchall_def emit_def Let_def
      call_timeouts_append split: sum.splits option.splits)

lemma query_call_failed:
  assumes "call_response (drv w) (log w) op (case t of None \<Rightarrow> timeout self | Some x \<Rightarrow> x) = Inl err"
  shows "query self op m t w =
     (if timeout_or_driver_error err then
        (case on_error self m err (user w) of
           (Raises exc, u) \<Rightarrow> (Inl exc, (emit (CursorCall (cursor self) op (case t of None \<Rightarrow> timeout self | Some x \<Rightarrow> x)) w)\<lparr>user := u\<rparr>)
         | (Returns (Some exc), u) \<Rightarrow> (Inl exc, (emit (CursorCall (cursor self) op (case t of None \<Rightarrow> timeout self | Some x \<Rightarrow> x)) w)\<lparr>user := u\<rparr>)
         | (Returns None, u) \<Rightarrow> (Inr None, (emit (CursorCall (cursor self) op (case t of None \<Rightarrow> timeout self | Some x \<Rightarrow> x)) w)\<lparr>user := u\<rparr>))
      else (Inl err, emit (CursorCall (cursor self) op (case t of None \<Rightarrow> timeout self | Some x \<Rightarrow> x)) w))"
  using assms by (simp add: query_def cursor_call_def Let_def emit_fields)

lemma query_call_done:
  assumes "call_response (drv w) (log w) op (case t of None \<Rightarrow> timeout self | Some x \<Rightarrow> x) = Inr cs"
  shows "query self op m t w =
     (case query_results self (emit (CursorCall (cursor self) op (case t of None \<Rightarrow> timeout self | Some x \<Rightarrow> x))
               (w\<lparr>cursors := (cursors w)(cursor self := cs)\<rparr>)) of
        (Inl e, w2) \<Rightarrow> (Inl e, w2)
      | (Inr results, w2) \<Rightarrow>
          (case on_duration self of
             None \<Rightarrow> (Inr (Some results), w2)
           | Some f \<Rightarrow> (Inr (Some results), w2\<lparr>user := f m (monotonic w2 - monotonic w) (user w2)\<rparr>)))"
  using assms by (simp add: query_def cursor_call_def Let_def)

lemma call_timeouts_query:
  "call_timeouts (log (snd (query self op m t w))) =
     call_timeouts (log w) @ [case t of None \<Rightarrow> timeout self | Some x \<Rightarrow> x]"
proof (cases "call_response (drv w) (log w) op (case t of None \<Rightarrow> timeout self | Some x \<Rightarrow> x)")
  case (Inl err)
  show ?thesis
    by (simp add: query_call_failed [OF Inl] emit_fields call_timeouts_append
        split: prod.splits cb_result.splits option.splits)
next
  case (Inr cs)
  let ?w1 = "emit (CursorCall (cursor self) op (case t of None \<Rightarrow> timeout self | Some x \<Rightarrow> x))
               (w\<lparr>cursors := (cursors w)(cursor self := cs)\<rparr>)"
  have "call_timeouts (log (snd (query_results self ?w1))) = call_timeouts (log ?w1)"
    by (rule call_timeouts_query_results)
  then show ?thesis
    by (cases "query_results self ?w1")
       (auto simp: query_call_done [OF Inr] emit_fields call_timeouts_append
          split: sum.splits option.splits)
qed

subsection \<open>The connector\<close>

text \<open>
  Claim C3. In \<^verbatim>\<open>_query\<close>, which \<^verbatim>\<open>execute\<close> and \<^verbatim>\<open>callproc\<close> run: when the
  driver call raises a timeout or a driver error, \<^verbatim>\<open>on_error(metric_name, err)\<close> is
  called, and the exception it returns (or raises) is raised, the state being what
  \<^verbatim>\<open>on_error\<close> left, so the duration callback has not run; when the driver call
  succeeds and the result is shaped, the duration callback, if there is one, is called
  with the metric name and the clock reading after the fetch less the reading taken
  before the driver call, and the shaped result is returned.
\<close>

theorem C3_query_error_and_duration:
  fixes self :: "'u PostgresConnector" and w :: "'u world"
  shows
  "(call_response (drv w) (log w) op (case t of None \<Rightarrow> timeout self | Some x \<Rightarrow> x) = Inl err
      \<and> timeout_or_driver_error err
      \<and> (on_error self m err (user w) = (Returns (Some exc), u)
           \<or> on_error self m err (user w) = (Raises exc, u)) \<longrightarrow>
      query self op m t w =
        (Inl exc, (emit (CursorCall (cursor self) op (case t of None \<Rightarrow> timeout self | Some x \<Rightarrow> x)) w)
                    \<lparr>user := u\<rparr>))
   \<and> (call_response (drv w) (log w) op (case t of None \<Rightarrow> timeout self | Some x \<Rightarrow> x) = Inr cs
      \<and> query_results self
           (emit (CursorCall (cursor self) op (case t of None \<Rightarrow> timeout self | Some x \<Rightarrow> x))
              (w\<lparr>cursors := (cursors w)(cursor self := cs)\<rparr>)) = (Inr q, w') \<longrightarrow>
      query self op m t w =
        (Inr (Some q),
         case on_duration self of
           None \<Rightarrow> w'
         | Some f \<Rightarrow> w'\<lparr>user := f m (monotonic w' - monotonic w) (user w')\<rparr>))
   \<and> execute self sql ps m t w = query self (Execute sql ps) m t w
   \<and> callproc self name ps m t w = query self (Callproc name ps) m t w"
proof (intro conjI impI)
  assume a: "call_response (drv w) (log w) op (case t of None \<Rightarrow> timeout self | Some x \<Rightarrow> x) = Inl err
      \<and> timeout_or_driver_error err
      \<and> (on_error self m err (user w) = (Returns (Some exc), u)
           \<or> on_error self m err (user w) = (Raises exc, u))"
  then show "query self op m t w =
        (Inl exc, (emit (CursorCall (cursor self) op (case t of None \<Rightarrow> timeout self | Some x \<Rightarrow> x)) w)
                    \<lparr>user := u\<rparr>)"
    using query_call_failed [where w = w and op = op and t = t and self = self and err = err and m = m] by auto
next
  assume a: "call_response (drv w) (log w) op (case t of None \<Rightarrow> timeout self | Some x \<Rightarrow> x) = Inr cs
      \<and> query_results self
           (emit (CursorCall (cursor self) op (case t of None \<Rightarrow> timeout self | Some x \<Rightarrow> x))
              (w\<lparr>cursors := (cursors w)(cursor self := cs)\<rparr>)) = (Inr q, w')"
  then show "query self op m t w =
        (Inr (Some q),
         case on_duration self of
           None \<Rightarrow> w'
         | Some f \<Rightarrow> w'\<lparr>user := f m (monotonic w' - monotonic w) (user w')\<rparr>)"
    using query_call_done [where w = w and op = op and t = t and self = self and cs = cs and m = m] by (auto split: option.splits)
qed (simp_all add: execute_def callproc_def)

theorem C3_query_error_and_duration_witness:
  "query connector1 (Execute ''DROP'' NoParameters) ''drop'' None world_up =
     (Inl (Psycopg2Error OtherPgError ''syntax error''),
      world_up\<lparr>log := [CursorCall 0 (Execute ''DROP'' NoParameters) 120]\<rparr>)
   \<and> query connector1 (Execute ''SELECT 1'' NoParameters) ''one'' None world_up =
     (Inr (Some \<lparr>row_count = 1, row = Some [(''id'', PyInt 1)], rows = None\<rparr>),
      world_up\<lparr>log := [CursorCall 0 (Execute ''SELECT 1'' NoParameters) 120, FetchOne 0],
               cursors := (cursors world_up)(0 := one_row),
               user := [(''one'', 2)]\<rparr>)"
proof -
  let ?e = "Psycopg2Error OtherPgError ''syntax error''"
  let ?q = "\<lparr>row_count = 1, row = Some [(''id'', PyInt 1)], rows = None\<rparr>"
  let ?w = "world_up\<lparr>log := [CursorCall 0 (Execute ''SELECT 1'' NoParameters) 120, FetchOne 0],
               cursors := (cursors world_up)(0 := one_row)\<rparr>"
  have t: "(case None of None \<Rightarrow> timeout connector1 | Some x \<Rightarrow> x) = 120" "cursor connector1 = 0"
    "on_duration connector1 = Some record_duration"
    by (simp_all add: connector1_def)
  have h1: "call_response (drv world_up) (log world_up) (Execute ''DROP'' NoParameters) 120 = Inl ?e"
    by (simp add: world_up_def good_driver_def answer_def)
  have h2: "timeout_or_driver_error ?e"
    by (simp add: timeout_or_driver_error_def)
  have h3: "on_error connector1 ''drop'' ?e (user world_up) = (Returns (Some ?e), [])"
    by (simp add: connector1_def hand_back_def world_up_def)
  have h4: "call_response (drv world_up) (log world_up) (Execute ''SELECT 1'' NoParameters) 120
      = Inr one_row"
    by (simp add: world_up_def good_driver_def answer_def)
  have h5: "query_results connector1
      (emit (CursorCall 0 (Execute ''SELECT 1'' NoParameters) 120)
         (world_up\<lparr>cursors := (cursors world_up)(0 := one_row)\<rparr>)) = (Inr ?q, ?w)"
    by (simp add: query_results_def cursor_fetchone_def emit_def connector1_def one_row_def
          row_a_def dict_def world_up_def)
  have a: "query connector1 (Execute ''DROP'' NoParameters) ''drop'' None world_up =
      (Inl ?e, (emit (CursorCall 0 (Execute ''DROP'' NoParameters) 120) world_up)\<lparr>user := []\<rparr>)"
    using C3_query_error_and_duration [where self = connector1 and w = world_up and op = "Execute ''DROP'' NoParameters"
        and t = None and m = "''drop''" and err = ?e and exc = ?e and u = "[]"] h1 h2 h3
    unfolding t by blast
  have b: "query connector1 (Execute ''SELECT 1'' NoParameters) ''one'' None world_up =
      (Inr (Some ?q), ?w\<lparr>user := record_duration ''one'' (monotonic ?w - monotonic world_up) (user ?w)\<rparr>)"
    using C3_query_error_and_duration [where self = connector1 and w = world_up and op = "Execute ''SELECT 1'' NoParameters"
        and t = None and m = "''one''" and cs = one_row and q = ?q and w' = ?w] h4 h5
    unfolding t by simp
  show ?thesis
    unfolding a b
    by (simp add: emit_def world_up_def monotonic_def record_duration_def)
qed

text \<open>
  Claim C6. The one timeout that \<^verbatim>\<open>execute\<close> and \<^verbatim>\<open>callproc\<close> hand to the driver
  is the \<^verbatim>\<open>timeout\<close> argument when it is given and the connector's \<^verbatim>\<open>_timeout\<close>
  otherwise; the connector's \<^verbatim>\<open>_timeout\<close> is the (non-zero) timeout it was
  constructed with, and without one it is the value of \<^verbatim>\<open>POSTGRES_QUERY_TIMEOUT\<close>,
  which is 120 when the variable is not set.
\<close>

theorem C6_effective_timeout:
  "call_timeouts (log (snd (execute self sql ps m t w))) =
       call_timeouts (log w) @ [case t of Some x \<Rightarrow> x | None \<Rightarrow> timeout self]
   \<and> call_timeouts (log (snd (callproc self name ps m t w))) =
       call_timeouts (log w) @ [case t of Some x \<Rightarrow> x | None \<Rightarrow> timeout self]
   \<and> (x \<noteq> 0 \<longrightarrow> map_sum id timeout (PostgresConnector_init c oe od (Some x) w) = Inr x)
   \<and> (environ w ''POSTGRES_QUERY_TIMEOUT'' = None \<longrightarrow>
        map_sum id timeout (PostgresConnector_init c oe od None w) = Inr 120)
   \<and> (environ w ''POSTGRES_QUERY_TIMEOUT'' = Some s \<and> int_of_str w s = Some n \<longrightarrow>
        map_sum id timeout (PostgresConnector_init c oe od None w) = Inr (of_int n))"
  by (simp add: execute_def callproc_def call_timeouts_query PostgresConnector_init_def
        environ_query_timeout_def DEFAULT_POSTGRES_QUERY_TIMEOUT_def split: option.splits)

theorem C6_effective_timeout_witness:
  "call_timeouts (log (snd (execute connector1 ''SELECT 1'' NoParameters ''one'' (Some 5) world_up))) = [5]
   \<and> call_timeouts (log (snd (callproc connector1 ''f'' NoParameters ''f'' None world_up))) = [120]
   \<and> map_sum id timeout (PostgresConnector_init 0 hand_back None (Some 7) world_up) = Inr 7
   \<and> map_sum id timeout (PostgresConnector_init 0 hand_back None None world_up) = Inr 120
   \<and> map_sum id timeout (PostgresConnector_init 0 hand_back None None
        (world_up\<lparr>environ := [''POSTGRES_QUERY_TIMEOUT'' \<mapsto> ''30''],
                  int_of_str := (\<lambda>s. if s = ''30'' then Some 30 else None)\<rparr>)) = Inr 30"
  using C6_effective_timeout [where self = connector1 and w = world_up and sql = "''SELECT 1''" and ps = NoParameters
          and m = "''one''" and t = "Some 5" and c = 0 and oe = hand_back and od = None and x = 7
          and name = "''f''" and s = "''30''" and n = 30]
        C6_effective_timeout [where self = connector1 and w = world_up and sql = "''SELECT 1''" and ps = NoParameters
          and m = "''f''" and t = None and c = 0 and oe = hand_back and od = None and x = 7
          and name = "''f''" and s = "''30''" and n = 30]
        C6_effective_timeout [where self = connector1 and sql = "''SELECT 1''" and ps = NoParameters
          and w = "world_up\<lparr>environ := [''POSTGRES_QUERY_TIMEOUT'' \<mapsto> ''30''],
                  int_of_str := (\<lambda>s. if s = ''30'' then Some 30 else None)\<rparr>"
          and m = "''f''" and t = None and c = 0 and oe = hand_back and od = None and x = 7
          and name = "''f''" and s = "''30''" and n = 30]
  by (simp add: world_up_def connector1_def)

text \<open>
  Claim C9. When the driver call of \<^verbatim>\<open>execute\<close> or \<^verbatim>\<open>callproc\<close> raises a timeout or
  a driver error and \<^verbatim>\<open>on_error\<close> returns \<^verbatim>\<open>None\<close>, the call returns \<^verbatim>\<open>None\<close>
  and no \<^verbatim>\<open>QueryResult\<close>; nothing is fetched and the duration callback does not run:
  the world afterwards is the one after the driver call, with the state \<^verbatim>\<open>on_error\<close>
  left.
\<close>

theorem C9_swallowed_error_returns_none:
  fixes self :: "'u PostgresConnector" and w :: "'u world"
  shows
  "(call_response (drv w) (log w) (Execute sql ps) (case t of None \<Rightarrow> timeout self | Some x \<Rightarrow> x) = Inl err
      \<and> timeout_or_driver_error err \<and> on_error self m err (user w) = (Returns None, u) \<longrightarrow>
      execute self sql ps m t w =
        (Inr None,
         (emit (CursorCall (cursor self) (Execute sql ps) (case t of None \<Rightarrow> timeout self | Some x \<Rightarrow> x)) w)
           \<lparr>user := u\<rparr>))
   \<and> (call_response (drv w) (log w) (Callproc name ps) (case t of None \<Rightarrow> timeout self | Some x \<Rightarrow> x) = Inl err
      \<and> timeout_or_driver_error err \<and> on_error self m err (user w) = (Returns None, u) \<longrightarrow>
      callproc self name ps m t w =
        (Inr None,
         (emit (CursorCall (cursor self) (Callproc name ps) (case t of None \<Rightarrow> timeout self | Some x \<Rightarrow> x)) w)
           \<lparr>user := u\<rparr>))"
  using query_call_failed [where w = w and op = "Execute sql ps" and t = t and self = self and err = err and m = m]
    query_call_failed [where w = w and op = "Callproc name ps" and t = t and self = self and err = err and m = m]
  by (auto simp: execute_def callproc_def)

theorem C9_swallowed_error_returns_none_witness:
  "execute connector2 ''SELECT pg_sleep(600)'' NoParameters ''sleep'' (Some 1) world_up =
     (Inr None,
      world_up\<lparr>log := [CursorCall 0 (Execute ''SELECT pg_sleep(600)'' NoParameters) 1]\<rparr>)"
proof -
  have t: "(case Some 1 of None \<Rightarrow> timeout connector2 | Some x \<Rightarrow> x) = (1::real)" "cursor connector2 = 0"
    by (simp_all add: connector2_def)
  have h1: "call_response (drv world_up) (log world_up)
      (Execute ''SELECT pg_sleep(600)'' NoParameters) 1 = Inl (TimeoutError [])"
    by (simp add: world_up_def good_driver_def answer_def)
  have h2: "timeout_or_driver_error (TimeoutError [])"
    by (simp add: timeout_or_driver_error_def)
  have h3: "on_error connector2 ''sleep'' (TimeoutError []) (user world_up) = (Returns None, [])"
    by (simp add: connector2_def swallow_def world_up_def)
  have "execute connector2 ''SELECT pg_sleep(600)'' NoParameters ''sleep'' (Some 1) world_up =
     (Inr None,
      (emit (CursorCall 0 (Execute ''SELECT pg_sleep(600)'' NoParameters) 1) world_up)\<lparr>user := []\<rparr>)"
    using C9_swallowed_error_returns_none [where self = connector2 and w = world_up and sql = "''SELECT pg_sleep(600)''"
        and ps = NoParameters and t = "Some 1" and m = "''sleep''" and err = "TimeoutError []"
        and u = "[]"] h1 h2 h3
    unfolding t by blast
  then show ?thesis
    by (simp add: emit_def world_up_def)
qed

text \<open>
  Claim C10. A connector constructed with a timeout of 0 is constructed as one without a
  timeout: its \<^verbatim>\<open>_timeout\<close> is the default, 120 when \<^verbatim>\<open>POSTGRES_QUERY_TIMEOUT\<close> is not
  set, because \<^verbatim>\<open>timeout or ...\<close> tests the truth value. A timeout of 0 given to
  \<^verbatim>\<open>execute\<close> or \<^verbatim>\<open>callproc\<close> is handed to the driver as 0, because \<^verbatim>\<open>_query\<close>
  tests for \<^verbatim>\<open>None\<close>.
\<close>

theorem C10_zero_timeout:
  "(environ w ''POSTGRES_QUERY_TIMEOUT'' = None \<longrightarrow>
        map_sum id timeout (PostgresConnector_init c oe od (Some 0) w) = Inr 120)
   \<and> PostgresConnector_init c oe od (Some 0) w = PostgresConnector_init c oe od None w
   \<and> call_timeouts (log (snd (execute self sql ps m (Some 0) w))) = call_timeouts (log w) @ [0]
   \<and> call_timeouts (log (snd (callproc self name ps m (Some 0) w))) = call_timeouts (log w) @ [0]"
  by (simp add: execute_def callproc_def call_timeouts_query PostgresConnector_init_def
        environ_query_timeout_def DEFAULT_POSTGRES_QUERY_TIMEOUT_def split: option.splits)

theorem C10_zero_timeout_witness:
  "map_sum id timeout (PostgresConnector_init 0 hand_back None (Some 0) world_up) = Inr 120
   \<and> call_timeouts (log (snd (execute connector1 ''SELECT 1'' NoParameters ''one'' (Some 0) world_up))) = [0]"
proof -
  note T = C10_zero_timeout [where self = connector1 and w = world_up and sql = "''SELECT 1''"
          and ps = NoParameters and m = "''one''" and c = 0 and oe = hand_back and od = None
          and name = "''f''"]
  have h: "environ world_up ''POSTGRES_QUERY_TIMEOUT'' = None"
    by (simp add: world_up_def)
  have l: "call_timeouts (log world_up) = []"
    by (simp add: world_up_def)
  have a: "map_sum id timeout (PostgresConnector_init 0 hand_back None (Some 0) world_up) = Inr 120"
    using T h by blast
  have b: "call_timeouts (log (snd (execute connector1 ''SELECT 1'' NoParameters ''one'' (Some 0) world_up)))
      = call_timeouts (log world_up) @ [0]"
    using T by blast
  show ?thesis
    using a b l by simp
qed


subsection \<open>Scopes\<close>

lemmas run_defs = execute_def callproc_def query_def cursor_call_def query_results_def
  cursor_fetchone_def cursor_fetchall_def emit_def monotonic_def Let_def
  world_up_def good_driver_def answer_def written_def one_row_def row_a_def dict_def
  connector0_def default_on_postgres_error_def on_postgres_error_def record_duration_def
  timeout_or_driver_error_def

lemma closed_after_append:
  "closed_after d c evs (xs @ ys) b = closed_after d c (evs @ xs) ys (closed_after d c evs xs b)"
  by (induction xs arbitrary: evs b) simp_all

lemma connection_closed_emit:
  "connection_closed c (emit ev w) =
     (if opens c ev then False else connection_closed c w \<or> timed_out (drv w) c (log w) ev)"
  by (simp add: connection_closed_def emit_fields closed_after_append)

lemma connection_closed_fields:
  "connection_closed c (w\<lparr>user := u\<rparr>) = connection_closed c w"
  "connection_closed c (w\<lparr>cursors := cs\<rparr>) = connection_closed c w"
  "connection_closed c (w\<lparr>postgres_pool := p\<rparr>) = connection_closed c w"
  by (simp_all add: connection_closed_def)

lemma query_timeout_closes:
  assumes "call_response (drv w) (log w) op (case t of None \<Rightarrow> timeout self | Some x \<Rightarrow> x) = Inl err"
    "isinstance_TimeoutError err"
  shows "connection_closed (cursor self) (snd (query self op m t w))"
  using assms
  by (simp add: query_call_failed [OF assms(1)] timeout_or_driver_error_def connection_closed_emit
      connection_closed_fields split: prod.splits cb_result.splits option.splits)

lemma query_keeps_closed:
  assumes "connection_closed d w"
  shows "connection_closed d (snd (query self op m t w))"
  using assms
  by (auto simp: query_def cursor_call_def query_results_def cursor_fetchone_def
        cursor_fetchall_def Let_def connection_closed_emit connection_closed_fields
      split: sum.splits prod.splits cb_result.splits option.splits)

lemma postgres_connector_unentered:
  assumes "acquire_scope oe od t body w = (Unentered err, w')" "timeout_or_driver_error err"
  shows "postgres_connector oe od t body w =
      (case oe ''postgres_connector'' (ConnectionException (str err)) (user w') of
         (Raises exc, u) \<Rightarrow> (Inl exc, w'\<lparr>user := u\<rparr>)
       | (Returns (Some exc), u) \<Rightarrow> (Inl exc, w'\<lparr>user := u\<rparr>)
       | (Returns None, u) \<Rightarrow> body None (w'\<lparr>user := u\<rparr>))"
  using assms by (simp add: postgres_connector_def)

lemma acquire_scope_unentered:
  assumes "postgres_pool w = Some p"
    "pool_acquire w = (Inl err, w') \<or>
     (\<exists>wa wb. pool_acquire w = (Inr (), wa) \<and> conn_cursor t wa = (Inl err, wb) \<and> w' = pool_release False wb)"
  shows "acquire_scope oe od t body w = (Unentered err, w')"
  using assms by (auto simp: acquire_scope_def)

lemma transaction_begin_raises:
  assumes "begin_raises (drv w) (log w) = Some e"
  shows "transaction self body w = (Inl e, emit (CursorBegin (cursor self)) w)"
  using assms by (simp add: transaction_def cursor_begin_enter_def)

lemma transaction_body:
  assumes "begin_raises (drv w) (log w) = None"
    "body self (emit (CursorBegin (cursor self)) w) = (r, w')"
  shows "transaction self body w = cursor_begin_exit (cursor self) r w'"
  using assms by (simp add: transaction_def cursor_begin_enter_def)

lemma cursor_begin_exit_raised:
  "\<not> connection_closed c w \<Longrightarrow> snd (cursor_begin_exit c (Inl e) w) = emit (Rollback c) w"
  "\<exists>e'. fst (cursor_begin_exit c (Inl e) w) = Inl e'"
  "\<not> connection_closed c w \<Longrightarrow> rollback_raises (drv w) (log w) = None \<Longrightarrow>
     fst (cursor_begin_exit c (Inl e) w) = Inl e"
  "connection_closed c w \<Longrightarrow> cursor_begin_exit c (Inl e) w = (Inl e, w)"
  by (simp_all add: cursor_begin_exit_def split: option.splits)

lemma log_cursor_begin_exit:
  "log (snd (cursor_begin_exit c r w)) =
     log w @ (case r of
                Inl _ \<Rightarrow> if connection_closed c w then [] else [Rollback c]
              | Inr _ \<Rightarrow> [Commit c])"
  by (simp add: cursor_begin_exit_def emit_fields split: sum.splits option.splits)

lemma cursor_begin_exit_returned:
  "snd (cursor_begin_exit c (Inr v) w) = emit (Commit c) w"
  "commit_raises (drv w) (log w) = None \<Longrightarrow> fst (cursor_begin_exit c (Inr v) w) = Inr v"
  by (simp_all add: cursor_begin_exit_def split: option.splits)

lemma acquire_scope_left:
  assumes "postgres_pool w = Some p" "pool_acquire w = (Inr (), wa)"
    "conn_cursor t wa = (Inr c, wb)" "PostgresConnector_init c oe od t wb = Inr k"
    "body (Some k) wb = (r, wc)"
  shows "acquire_scope oe od t body w =
    (Left r, pool_release (connection_closed c wc) (cursor_close c wc))"
  using assms by (simp add: acquire_scope_def)

lemma postgres_connector_left:
  assumes "acquire_scope oe od t body w = (Left r, w')"
  shows "log (snd (postgres_connector oe od t body w)) = log w'"
    and "r = Inr v \<Longrightarrow> postgres_connector oe od t body w = (Inr v, w')"
    and "r = Inl e \<Longrightarrow> \<exists>e'. fst (postgres_connector oe od t body w) = Inl e'"
    and "r = Inl e \<Longrightarrow> \<not> timeout_or_driver_error e \<Longrightarrow> postgres_connector oe od t body w = (Inl e, w')"
  using assms
  by (auto simp: postgres_connector_def split: sum.splits prod.splits cb_result.splits option.splits)

lemma log_release_close:
  "log (pool_release b (cursor_close c w)) = log w @ [CursorClose c, PoolRelease]"
  by (simp add: pool_release_def cursor_close_def emit_fields)

text \<open>
  Claim C4. When the pool exists and \<^verbatim>\<open>acquire()\<close> or \<^verbatim>\<open>conn.cursor(...)\<close> raises a
  timeout or a driver error, \<^verbatim>\<open>postgres_connector\<close> calls \<^verbatim>\<open>on_error\<close> with the
  metric name \<^verbatim>\<open>postgres_connector\<close> and a \<^verbatim>\<open>ConnectionException\<close> carrying the text
  of the error; the exception \<^verbatim>\<open>on_error\<close> returns (or raises) is raised to the caller,
  and when it returns \<^verbatim>\<open>None\<close> the scope yields \<^verbatim>\<open>None\<close> for the connector and the
  body runs with it.
\<close>

theorem C4_acquisition_failure:
  fixes w :: "'u world"
  shows
  "postgres_pool w = Some p \<and> timeout_or_driver_error err
    \<and> (pool_acquire w = (Inl err, w')
        \<or> pool_acquire w = (Inr (), wa) \<and> conn_cursor t wa = (Inl err, wb) \<and> w' = pool_release False wb) \<longrightarrow>
   postgres_connector oe od t body w =
      (case oe ''postgres_connector'' (ConnectionException (str err)) (user w') of
         (Raises exc, u) \<Rightarrow> (Inl exc, w'\<lparr>user := u\<rparr>)
       | (Returns (Some exc), u) \<Rightarrow> (Inl exc, w'\<lparr>user := u\<rparr>)
       | (Returns None, u) \<Rightarrow> body None (w'\<lparr>user := u\<rparr>))"
proof
  assume a: "postgres_pool w = Some p \<and> timeout_or_driver_error err
    \<and> (pool_acquire w = (Inl err, w')
        \<or> pool_acquire w = (Inr (), wa) \<and> conn_cursor t wa = (Inl err, wb) \<and> w' = pool_release False wb)"
  then have "acquire_scope oe od t body w = (Unentered err, w')"
    by (intro acquire_scope_unentered [where p = p]) auto
  then show "postgres_connector oe od t body w =
      (case oe ''postgres_connector'' (ConnectionException (str err)) (user w') of
         (Raises exc, u) \<Rightarrow> (Inl exc, w'\<lparr>user := u\<rparr>)
       | (Returns (Some exc), u) \<Rightarrow> (Inl exc, w'\<lparr>user := u\<rparr>)
       | (Returns None, u) \<Rightarrow> body None (w'\<lparr>user := u\<rparr>))"
    using a by (intro postgres_connector_unentered) auto
qed

theorem C4_acquisition_failure_witness:
  "postgres_connector default_on_postgres_error None (Some 3) probe world_down =
     (Inl (HTTPError 503 ''Database Connection Error''), world_down\<lparr>log := [PoolAcquire]\<rparr>)
   \<and> postgres_connector swallow None (Some 3) probe world_down =
     (Inr False, world_down\<lparr>log := [PoolAcquire]\<rparr>)"
proof -
  let ?e = "Psycopg2Error OtherPgError ''could not connect to server''"
  let ?w = "world_down\<lparr>log := [PoolAcquire]\<rparr>"
  have h1: "postgres_pool world_down = Some open_pool"
    by (simp add: world_down_def world_up_def)
  have h2: "timeout_or_driver_error ?e"
    by (simp add: timeout_or_driver_error_def)
  have h3: "pool_acquire world_down = (Inl ?e, ?w)"
    by (simp add: pool_acquire_def world_down_def world_up_def down_driver_def emit_def)
  have a: "postgres_connector default_on_postgres_error None (Some 3) probe world_down =
      (case default_on_postgres_error ''postgres_connector'' (ConnectionException (str ?e)) (user ?w) of
         (Raises exc, u) \<Rightarrow> (Inl exc, ?w\<lparr>user := u\<rparr>)
       | (Returns (Some exc), u) \<Rightarrow> (Inl exc, ?w\<lparr>user := u\<rparr>)
       | (Returns None, u) \<Rightarrow> probe None (?w\<lparr>user := u\<rparr>))"
    using C4_acquisition_failure [where w = world_down and p = open_pool and err = ?e and w' = ?w
        and oe = default_on_postgres_error and od = None and t = "Some 3" and body = probe] h1 h2 h3
    by blast
  have b: "postgres_connector swallow None (Some 3) probe world_down =
      (case swallow ''postgres_connector'' (ConnectionException (str ?e)) (user ?w) of
         (Raises exc, u) \<Rightarrow> (Inl exc, ?w\<lparr>user := u\<rparr>)
       | (Returns (Some exc), u) \<Rightarrow> (Inl exc, ?w\<lparr>user := u\<rparr>)
       | (Returns None, u) \<Rightarrow> probe None (?w\<lparr>user := u\<rparr>))"
    using C4_acquisition_failure [where w = world_down and p = open_pool and err = ?e and w' = ?w
        and oe = swallow and od = None and t = "Some 3" and body = probe] h1 h2 h3
    by blast
  show ?thesis
    unfolding a b
    by (simp add: default_on_postgres_error_def on_postgres_error_def swallow_def probe_def
          world_down_def world_up_def)
qed

text \<open>
  Claim C2 as it is stated promises a rollback for every timeout or driver error of a
  statement inside the scope. Two runs show otherwise. In the first, the second
  statement of a \<^verbatim>\<open>postgres_transaction\<close> with the default policy times out: the
  driver has closed the connection, the scope sends no \<^verbatim>\<open>ROLLBACK\<close>, and the error
  propagates. In the second, the database rejects the second statement and
  \<^verbatim>\<open>on_error\<close> swallows the error: \<^verbatim>\<open>execute\<close> returns \<^verbatim>\<open>None\<close>, the body ends
  normally and the scope issues \<^verbatim>\<open>COMMIT\<close>.
\<close>

theorem C2_rollback_counterexample:
  "fst (postgres_transaction default_handler None insert_then_timeout world_up)
     = Inl (HTTPError 500 ''Query Timeout'')
   \<and> log (snd (postgres_transaction default_handler None insert_then_timeout world_up)) =
       [PoolAcquire, ConnCursor 1 None, CursorBegin 1,
        CursorCall 1 (Execute ''INSERT INTO t(id) VALUES (%s)'' (Positional [PyInt 1])) 120,
        FetchOne 1, CursorCall 1 (Execute ''SELECT pg_sleep(600)'' NoParameters) 120,
        CursorClose 1, PoolRelease]
   \<and> fst (transaction connector2 insert_then_fail world_up) = Inr None
   \<and> log (snd (transaction connector2 insert_then_fail world_up)) =
       [CursorBegin 0,
        CursorCall 0 (Execute ''INSERT INTO t(id) VALUES (%s)'' (Positional [PyInt 1])) 120,
        FetchOne 0, CursorCall 0 (Execute ''SELEC'' NoParameters) 120, Commit 0]"
  by (simp add: postgres_transaction_def postgres_connector_def acquire_scope_def
        need_connector_def pool_acquire_def pool_release_def conn_cursor_def cursor_close_def
        PostgresConnector_init_def environ_query_timeout_def DEFAULT_POSTGRES_QUERY_TIMEOUT_def
        default_handler_def transaction_def cursor_begin_enter_def cursor_begin_exit_def
        connection_closed_def raises_timeout_def insert_then_timeout_def insert_then_fail_def
        connector2_def swallow_def run_defs)

text \<open>
  Claim C2, amended. \<^verbatim>\<open>transaction\<close> issues \<^verbatim>\<open>BEGIN\<close> on the connector's cursor
  before the body runs, and hands the body the connector itself: a body that returns
  what it was handed returns \<open>self\<close>. When an exception leaves the body and the
  connection is still open, \<^verbatim>\<open>ROLLBACK\<close> is issued on that cursor and an exception
  leaves the scope (the body's own, unless the rollback raises). When an exception
  leaves the body and the connection is closed, nothing is sent and the exception
  leaves the scope; a statement that times out leaves the connection closed, and it
  stays closed through later statements. A
  statement error that \<^verbatim>\<open>on_error\<close> swallows is not raised into the body. When the
  body ends normally, \<^verbatim>\<open>COMMIT\<close> is issued and the body's value is the scope's (unless
  the commit raises). \<^verbatim>\<open>postgres_transaction\<close> does this on the cursor of the connector
  it acquired, and closes the cursor and releases the connection afterwards.
\<close>

theorem C2_transaction_scope:
  fixes self :: "'u PostgresConnector" and w :: "'u world"
  shows
  "(begin_raises (drv w) (log w) = Some e \<longrightarrow>
      transaction self body w = (Inl e, emit (CursorBegin (cursor self)) w))
   \<and> (begin_raises (drv w) (log w) = None
       \<and> body self (emit (CursorBegin (cursor self)) w) = (Inl e, w')
       \<and> \<not> connection_closed (cursor self) w' \<longrightarrow>
      snd (transaction self body w) = emit (Rollback (cursor self)) w'
      \<and> (\<exists>e'. fst (transaction self body w) = Inl e')
      \<and> (rollback_raises (drv w') (log w') = None \<longrightarrow> fst (transaction self body w) = Inl e))
   \<and> (begin_raises (drv w) (log w) = None
       \<and> body self (emit (CursorBegin (cursor self)) w) = (Inl e, w')
       \<and> connection_closed (cursor self) w' \<longrightarrow>
      transaction self body w = (Inl e, w'))
   \<and> (call_response (drv w) (log w) op (case tq of None \<Rightarrow> timeout self | Some x \<Rightarrow> x) = Inl err
       \<and> isinstance_TimeoutError err \<longrightarrow>
      connection_closed (cursor self) (snd (query self op m tq w)))
   \<and> (connection_closed d w \<longrightarrow> connection_closed d (snd (query self op m tq w)))
   \<and> (call_response (drv w) (log w) op (case tq of None \<Rightarrow> timeout self | Some x \<Rightarrow> x) = Inl err
       \<and> timeout_or_driver_error err \<and> on_error self m err (user w) = (Returns None, u) \<longrightarrow>
      fst (query self op m tq w) = Inr None)
   \<and> (begin_raises (drv w) (log w) = None
       \<and> body self (emit (CursorBegin (cursor self)) w) = (Inr v, w') \<longrightarrow>
      snd (transaction self body w) = emit (Commit (cursor self)) w'
      \<and> (commit_raises (drv w') (log w') = None \<longrightarrow> fst (transaction self body w) = Inr v))
   \<and> (begin_raises (drv w) (log w) = None
       \<and> commit_raises (drv w) (log w @ [CursorBegin (cursor self)]) = None \<longrightarrow>
      fst (transaction self (\<lambda>connector wa. (Inr connector, wa)) w) = Inr self)
   \<and> (postgres_pool w = Some p \<and> pool_acquire w = (Inr (), wa) \<and> conn_cursor t wa = (Inr c, wb)
       \<and> PostgresConnector_init c (handler_on_postgres_error h)
            (Some (handler_on_postgres_timing h)) t wb = Inr k
       \<and> begin_raises (drv wb) (log wb) = None
       \<and> body k (emit (CursorBegin c) wb) = (r, wc) \<longrightarrow>
      cursor k = c
      \<and> log (snd (postgres_transaction h t body w)) =
          log wc @ (case r of
                      Inl _ \<Rightarrow> if connection_closed c wc then [] else [Rollback c]
                    | Inr _ \<Rightarrow> [Commit c])
            @ [CursorClose c, PoolRelease]
      \<and> (\<forall>x. r = Inl x \<longrightarrow> (\<exists>e'. fst (postgres_transaction h t body w) = Inl e')))"
proof (intro conjI impI)
  assume "begin_raises (drv w) (log w) = Some e"
  then show "transaction self body w = (Inl e, emit (CursorBegin (cursor self)) w)"
    by (rule transaction_begin_raises)
next
  assume a: "begin_raises (drv w) (log w) = None
       \<and> body self (emit (CursorBegin (cursor self)) w) = (Inl e, w')
       \<and> \<not> connection_closed (cursor self) w'"
  then have t: "transaction self body w = cursor_begin_exit (cursor self) (Inl e) w'"
    by (intro transaction_body) auto
  show "snd (transaction self body w) = emit (Rollback (cursor self)) w'"
    unfolding t using a by (intro cursor_begin_exit_raised(1)) simp
  show "\<exists>e'. fst (transaction self body w) = Inl e'"
    unfolding t by (rule cursor_begin_exit_raised(2))
  assume "rollback_raises (drv w') (log w') = None"
  then show "fst (transaction self body w) = Inl e"
    unfolding t using a by (intro cursor_begin_exit_raised(3)) simp_all
next
  assume a: "begin_raises (drv w) (log w) = None
       \<and> body self (emit (CursorBegin (cursor self)) w) = (Inl e, w')
       \<and> connection_closed (cursor self) w'"
  then have t: "transaction self body w = cursor_begin_exit (cursor self) (Inl e) w'"
    by (intro transaction_body) auto
  show "transaction self body w = (Inl e, w')"
    unfolding t using a by (intro cursor_begin_exit_raised(4)) simp
next
  assume "call_response (drv w) (log w) op (case tq of None \<Rightarrow> timeout self | Some x \<Rightarrow> x) = Inl err
       \<and> isinstance_TimeoutError err"
  then show "connection_closed (cursor self) (snd (query self op m tq w))"
    by (intro query_timeout_closes [where err = err]) simp_all
next
  assume "connection_closed d w"
  then show "connection_closed d (snd (query self op m tq w))"
    by (rule query_keeps_closed)
next
  assume a: "call_response (drv w) (log w) op (case tq of None \<Rightarrow> timeout self | Some x \<Rightarrow> x) = Inl err
       \<and> timeout_or_driver_error err \<and> on_error self m err (user w) = (Returns None, u)"
  then show "fst (query self op m tq w) = Inr None"
    using query_call_failed [where w = w and op = op and t = tq and self = self and err = err
        and m = m]
    by simp
next
  assume a: "begin_raises (drv w) (log w) = None
       \<and> body self (emit (CursorBegin (cursor self)) w) = (Inr v, w')"
  then have t: "transaction self body w = cursor_begin_exit (cursor self) (Inr v) w'"
    by (intro transaction_body) auto
  show "snd (transaction self body w) = emit (Commit (cursor self)) w'"
    unfolding t by (rule cursor_begin_exit_returned)
  assume "commit_raises (drv w') (log w') = None"
  then show "fst (transaction self body w) = Inr v"
    unfolding t by (rule cursor_begin_exit_returned)
next
  assume "begin_raises (drv w) (log w) = None
       \<and> commit_raises (drv w) (log w @ [CursorBegin (cursor self)]) = None"
  then show "fst (transaction self (\<lambda>connector wa. (Inr connector, wa)) w) = Inr self"
    by (simp add: transaction_def cursor_begin_enter_def cursor_begin_exit_def emit_fields)
next
  assume a: "postgres_pool w = Some p \<and> pool_acquire w = (Inr (), wa) \<and> conn_cursor t wa = (Inr c, wb)
       \<and> PostgresConnector_init c (handler_on_postgres_error h)
            (Some (handler_on_postgres_timing h)) t wb = Inr k
       \<and> begin_raises (drv wb) (log wb) = None
       \<and> body k (emit (CursorBegin c) wb) = (r, wc)"
  then show kc: "cursor k = c"
    by (auto simp: PostgresConnector_init_def split: sum.splits)
  let ?B = "need_connector (\<lambda>connector. transaction connector body)"
  let ?x = "cursor_begin_exit c r wc"
  have tr: "transaction k body wb = ?x"
    using a kc transaction_body [where self = k and w = wb and body = body and r = r and w' = wc]
    by simp
  have "?B (Some k) wb = (fst ?x, snd ?x)"
    by (simp add: need_connector_def tr)
  then have sc: "acquire_scope (handler_on_postgres_error h) (Some (handler_on_postgres_timing h)) t ?B w
      = (Left (fst ?x), pool_release (connection_closed c (snd ?x)) (cursor_close c (snd ?x)))"
    using a by (intro acquire_scope_left [where p = p and wa = wa and wb = wb]) auto
  show "log (snd (postgres_transaction h t body w)) =
          log wc @ (case r of
                      Inl _ \<Rightarrow> if connection_closed c wc then [] else [Rollback c]
                    | Inr _ \<Rightarrow> [Commit c])
            @ [CursorClose c, PoolRelease]"
    unfolding postgres_transaction_def postgres_connector_left(1) [OF sc]
    by (simp add: log_release_close log_cursor_begin_exit)
  show "\<forall>x. r = Inl x \<longrightarrow> (\<exists>e'. fst (postgres_transaction h t body w) = Inl e')"
  proof (intro allI impI)
    fix x assume "r = Inl x"
    then obtain e' where "fst ?x = Inl e'"
      using cursor_begin_exit_raised(2) by blast
    then show "\<exists>e'. fst (postgres_transaction h t body w) = Inl e'"
      unfolding postgres_transaction_def by (rule postgres_connector_left(3) [OF sc])
  qed
qed

theorem C2_transaction_scope_witness:
  "fst (transaction connector0 two_inserts world_up) = Inr (Some \<lparr>row_count = 1, row = None, rows = None\<rparr>)
   \<and> log (snd (transaction connector0 two_inserts world_up)) =
       [CursorBegin 0,
        CursorCall 0 (Execute ''INSERT INTO t(id) VALUES (%s)'' (Positional [PyInt 1])) 120,
        FetchOne 0,
        CursorCall 0 (Execute ''INSERT INTO t(id) VALUES (%s)'' (Positional [PyInt 2])) 120,
        FetchOne 0, Commit 0]
   \<and> fst (transaction connector0 insert_then_fail world_up) = Inl (HTTPError 500 ''Database Error'')
   \<and> log (snd (transaction connector0 insert_then_fail world_up)) =
       [CursorBegin 0,
        CursorCall 0 (Execute ''INSERT INTO t(id) VALUES (%s)'' (Positional [PyInt 1])) 120,
        FetchOne 0, CursorCall 0 (Execute ''SELEC'' NoParameters) 120, Rollback 0]
   \<and> fst (transaction connector0 insert_then_timeout world_up) = Inl (HTTPError 500 ''Query Timeout'')
   \<and> log (snd (transaction connector0 insert_then_timeout world_up)) =
       [CursorBegin 0,
        CursorCall 0 (Execute ''INSERT INTO t(id) VALUES (%s)'' (Positional [PyInt 1])) 120,
        FetchOne 0, CursorCall 0 (Execute ''SELECT pg_sleep(600)'' NoParameters) 120]
   \<and> connection_closed 0
        (snd (query connector2 (Execute ''SELECT pg_sleep(600)'' NoParameters) ''sleep'' None world_up))
   \<and> fst (query connector2 (Execute ''SELECT pg_sleep(600)'' NoParameters) ''sleep'' None world_up)
       = Inr None
   \<and> connection_closed 0
        (snd (query connector0 (Execute ''SELECT 1'' NoParameters) ''one'' None
           (snd (transaction connector0 insert_then_timeout world_up))))
   \<and> fst (transaction connector0 two_inserts
        (world_up\<lparr>drv := good_driver\<lparr>begin_raises :=
           (\<lambda>_. Some (Psycopg2Error OtherPgError ''server closed the connection''))\<rparr>\<rparr>))
       = Inl (Psycopg2Error OtherPgError ''server closed the connection'')
   \<and> fst (transaction connector0 (\<lambda>connector wa. (Inr connector, wa)) world_up) = Inr connector0
   \<and> log (snd (postgres_transaction default_handler None insert_then_fail world_up)) =
       [PoolAcquire, ConnCursor 1 None, CursorBegin 1,
        CursorCall 1 (Execute ''INSERT INTO t(id) VALUES (%s)'' (Positional [PyInt 1])) 120,
        FetchOne 1, CursorCall 1 (Execute ''SELEC'' NoParameters) 120, Rollback 1,
        CursorClose 1, PoolRelease]"
proof -
  let ?ok = "world_up\<lparr>log := [CursorBegin 0,
       CursorCall 0 (Execute ''INSERT INTO t(id) VALUES (%s)'' (Positional [PyInt 1])) 120,
       FetchOne 0,
       CursorCall 0 (Execute ''INSERT INTO t(id) VALUES (%s)'' (Positional [PyInt 2])) 120,
       FetchOne 0],
     cursors := (cursors world_up)(0 := written), user := [(''insert'', 2), (''insert'', 2)]\<rparr>"
  let ?bad = "world_up\<lparr>log := [CursorBegin 0,
       CursorCall 0 (Execute ''INSERT INTO t(id) VALUES (%s)'' (Positional [PyInt 1])) 120,
       FetchOne 0, CursorCall 0 (Execute ''SELEC'' NoParameters) 120],
     cursors := (cursors world_up)(0 := written), user := [(''insert'', 2)]\<rparr>"
  let ?late = "world_up\<lparr>log := [CursorBegin 0,
       CursorCall 0 (Execute ''INSERT INTO t(id) VALUES (%s)'' (Positional [PyInt 1])) 120,
       FetchOne 0, CursorCall 0 (Execute ''SELECT pg_sleep(600)'' NoParameters) 120],
     cursors := (cursors world_up)(0 := written), user := [(''insert'', 2)]\<rparr>"
  let ?nb = "world_up\<lparr>drv := good_driver\<lparr>begin_raises :=
           (\<lambda>_. Some (Psycopg2Error OtherPgError ''server closed the connection''))\<rparr>\<rparr>"
  let ?wa = "snd (pool_acquire world_up)"
  let ?wb = "snd (conn_cursor None ?wa)"
  let ?k = "\<lparr>cursor = 1, on_error = default_on_postgres_error, on_duration = Some record_duration,
     timeout = 120\<rparr> :: (string \<times> real) list PostgresConnector"
  let ?wc = "snd (insert_then_fail ?k (emit (CursorBegin 1) ?wb))"
  have c0: "cursor connector0 = 0"
    by (simp add: connector0_def)
  have b0: "begin_raises (drv world_up) (log world_up) = None"
    by (simp add: world_up_def good_driver_def)
  have ok: "two_inserts connector0 (emit (CursorBegin (cursor connector0)) world_up) =
      (Inr (Some \<lparr>row_count = 1, row = None, rows = None\<rparr>), ?ok)"
    by (simp add: two_inserts_def run_defs)
  have bad: "insert_then_fail connector0 (emit (CursorBegin (cursor connector0)) world_up) =
      (Inl (HTTPError 500 ''Database Error''), ?bad)"
    by (simp add: insert_then_fail_def run_defs)
  have late: "insert_then_timeout connector0 (emit (CursorBegin (cursor connector0)) world_up) =
      (Inl (HTTPError 500 ''Query Timeout''), ?late)"
    by (simp add: insert_then_timeout_def run_defs)
  have cm: "commit_raises (drv ?ok) (log ?ok) = None" "rollback_raises (drv ?bad) (log ?bad) = None"
    by (simp_all add: world_up_def good_driver_def)
  have op: "\<not> connection_closed (cursor connector0) ?bad"
    by (simp add: connection_closed_def raises_timeout_def connector0_def world_up_def
          good_driver_def answer_def)
  have cl: "connection_closed (cursor connector0) ?late"
    by (simp add: connection_closed_def raises_timeout_def connector0_def world_up_def
          good_driver_def answer_def)
  have a: "snd (transaction connector0 two_inserts world_up) = emit (Commit (cursor connector0)) ?ok
      \<and> fst (transaction connector0 two_inserts world_up)
          = Inr (Some \<lparr>row_count = 1, row = None, rows = None\<rparr>)"
    using C2_transaction_scope [where self = connector0 and w = world_up and body = two_inserts
        and v = "Some \<lparr>row_count = 1, row = None, rows = None\<rparr>" and w' = ?ok] b0 ok cm(1)
    by blast
  have b: "snd (transaction connector0 insert_then_fail world_up) = emit (Rollback (cursor connector0)) ?bad
      \<and> fst (transaction connector0 insert_then_fail world_up) = Inl (HTTPError 500 ''Database Error'')"
    using C2_transaction_scope [where self = connector0 and w = world_up and body = insert_then_fail
        and e = "HTTPError 500 ''Database Error''" and w' = ?bad] b0 bad cm(2) op
    by blast
  have l: "transaction connector0 insert_then_timeout world_up =
      (Inl (HTTPError 500 ''Query Timeout''), ?late)"
    using C2_transaction_scope [where self = connector0 and w = world_up
        and body = insert_then_timeout and e = "HTTPError 500 ''Query Timeout''" and w' = ?late]
      b0 late cl
    by blast
  have q0: "call_response (drv world_up) (log world_up)
      (Execute ''SELECT pg_sleep(600)'' NoParameters)
      (case None of None \<Rightarrow> timeout connector2 | Some x \<Rightarrow> x) = Inl (TimeoutError [])"
    "isinstance_TimeoutError (TimeoutError [])" "timeout_or_driver_error (TimeoutError [])"
    "on_error connector2 ''sleep'' (TimeoutError []) (user world_up) = (Returns None, [])"
    by (simp_all add: world_up_def good_driver_def answer_def connector2_def swallow_def
          timeout_or_driver_error_def)
  have q: "connection_closed (cursor connector2)
        (snd (query connector2 (Execute ''SELECT pg_sleep(600)'' NoParameters) ''sleep'' None world_up))
      \<and> fst (query connector2 (Execute ''SELECT pg_sleep(600)'' NoParameters) ''sleep'' None world_up)
          = Inr None"
    using C2_transaction_scope [where self = connector2 and w = world_up and body = two_inserts
        and op = "Execute ''SELECT pg_sleep(600)'' NoParameters" and tq = None
        and m = "''sleep''" and err = "TimeoutError []" and u = "[]"] q0
    by blast
  have s: "connection_closed 0
        (snd (query connector0 (Execute ''SELECT 1'' NoParameters) ''one'' None
           (snd (transaction connector0 insert_then_timeout world_up))))"
    using C2_transaction_scope [where self = connector0 and w = ?late and body = two_inserts
        and d = 0 and op = "Execute ''SELECT 1'' NoParameters" and tq = None and m = "''one''"]
      cl
    unfolding l c0 by simp
  have n0: "begin_raises (drv ?nb) (log ?nb)
      = Some (Psycopg2Error OtherPgError ''server closed the connection'')"
    by (simp add: world_up_def)
  have n: "fst (transaction connector0 two_inserts ?nb)
      = Inl (Psycopg2Error OtherPgError ''server closed the connection'')"
    using C2_transaction_scope [where self = connector0 and w = ?nb and body = two_inserts
        and e = "Psycopg2Error OtherPgError ''server closed the connection''",
        THEN conjunct1] n0
    by simp
  have p1: "postgres_pool world_up = Some open_pool"
    by (simp add: world_up_def)
  have p2: "pool_acquire world_up = (Inr (), ?wa)"
    by (simp add: pool_acquire_def world_up_def good_driver_def)
  have p3: "conn_cursor None ?wa = (Inr 1, ?wb)"
    by (simp add: conn_cursor_def pool_acquire_def world_up_def good_driver_def emit_def Let_def)
  have p4: "PostgresConnector_init 1 (handler_on_postgres_error default_handler)
      (Some (handler_on_postgres_timing default_handler)) None ?wb = Inr ?k"
    by (simp add: PostgresConnector_init_def environ_query_timeout_def default_handler_def
          DEFAULT_POSTGRES_QUERY_TIMEOUT_def conn_cursor_def pool_acquire_def world_up_def
          good_driver_def emit_def Let_def)
  have p5: "begin_raises (drv ?wb) (log ?wb) = None"
    by (simp add: conn_cursor_def pool_acquire_def world_up_def good_driver_def emit_def Let_def)
  have p6: "insert_then_fail ?k (emit (CursorBegin 1) ?wb) = (Inl (HTTPError 500 ''Database Error''), ?wc)"
    by (simp add: insert_then_fail_def conn_cursor_def pool_acquire_def run_defs)
  have p7: "log ?wc = [PoolAcquire, ConnCursor 1 None, CursorBegin 1,
        CursorCall 1 (Execute ''INSERT INTO t(id) VALUES (%s)'' (Positional [PyInt 1])) 120,
        FetchOne 1, CursorCall 1 (Execute ''SELEC'' NoParameters) 120]"
    by (simp add: insert_then_fail_def conn_cursor_def pool_acquire_def run_defs)
  have p8: "\<not> connection_closed 1 ?wc"
    by (simp add: connection_closed_def raises_timeout_def insert_then_fail_def conn_cursor_def
          pool_acquire_def run_defs)
  have c: "log (snd (postgres_transaction default_handler None insert_then_fail world_up)) =
      log ?wc @ (case (Inl (HTTPError 500 ''Database Error'') :: exn + QueryResult option) of
                   Inl _ \<Rightarrow> if connection_closed 1 ?wc then [] else [Rollback 1]
                 | Inr _ \<Rightarrow> [Commit 1]) @ [CursorClose 1, PoolRelease]"
    using C2_transaction_scope [where w = world_up and p = open_pool and wa = ?wa and t = None and c = 1 and wb = ?wb
        and h = default_handler and k = ?k and body = insert_then_fail
        and r = "Inl (HTTPError 500 ''Database Error'')" and wc = ?wc] p1 p2 p3 p4 p5 p6
    by blast
  have c': "log (snd (postgres_transaction default_handler None insert_then_fail world_up)) =
       [PoolAcquire, ConnCursor 1 None, CursorBegin 1,
        CursorCall 1 (Execute ''INSERT INTO t(id) VALUES (%s)'' (Positional [PyInt 1])) 120,
        FetchOne 1, CursorCall 1 (Execute ''SELEC'' NoParameters) 120, Rollback 1,
        CursorClose 1, PoolRelease]"
    unfolding c p7 using p8 by simp
  have a': "log (snd (transaction connector0 two_inserts world_up)) =
       [CursorBegin 0,
        CursorCall 0 (Execute ''INSERT INTO t(id) VALUES (%s)'' (Positional [PyInt 1])) 120,
        FetchOne 0,
        CursorCall 0 (Execute ''INSERT INTO t(id) VALUES (%s)'' (Positional [PyInt 2])) 120,
        FetchOne 0, Commit 0]"
    using a by (simp add: c0 emit_def)
  have b': "log (snd (transaction connector0 insert_then_fail world_up)) =
       [CursorBegin 0,
        CursorCall 0 (Execute ''INSERT INTO t(id) VALUES (%s)'' (Positional [PyInt 1])) 120,
        FetchOne 0, CursorCall 0 (Execute ''SELEC'' NoParameters) 120, Rollback 0]"
    using b by (simp add: c0 emit_def)
  have c1: "commit_raises (drv world_up) (log world_up @ [CursorBegin (cursor connector0)]) = None"
    by (simp add: world_up_def good_driver_def)
  have d: "fst (transaction connector0 (\<lambda>connector wa. (Inr connector, wa)) world_up) = Inr connector0"
    using C2_transaction_scope [where self = connector0 and w = world_up,
        THEN conjunct2, THEN conjunct2, THEN conjunct2, THEN conjunct2, THEN conjunct2,
        THEN conjunct2, THEN conjunct2, THEN conjunct1] b0 c1
    by simp
  have q': "cursor connector2 = 0"
    by (simp add: connector2_def)
  show ?thesis
    using a a' b b' c' d l q n s unfolding q' by simp
qed



subsection \<open>Status and shutdown\<close>

lemmas status_defs = postgres_status_def postgres_connector_def acquire_scope_def with_user_def
  status_body_def status_on_error_def POSTGRES_STATUS_TIMEOUT_def pool_acquire_def pool_release_def
  conn_cursor_def cursor_close_def PostgresConnector_init_def take_connection_def
  give_connection_def open_pool_def connection_closed_def raises_timeout_def

lemma status_without_pool:
  "postgres_pool w = None \<Longrightarrow>
     fst (postgres_status w) = Inl (AttributeError ''NoneType object has no attribute acquire'')"
  by (simp add: status_defs timeout_or_driver_error_def)

lemma status_up:
  "fst (postgres_status world_up) = Inr \<lparr>available = True, pool_size = 1, pool_free = 1\<rparr>"
  by (simp add: status_defs run_defs)

lemma status_down:
  "fst (postgres_status world_down) = Inr \<lparr>available = False, pool_size = 1, pool_free = 1\<rparr>"
  by (simp add: status_defs world_down_def down_driver_def run_defs)

lemma status_lost:
  "fst (postgres_status world_lost) = Inl (RuntimeError ''generator didn't stop after athrow()'')"
  by (simp add: status_defs world_lost_def lost_result_def run_defs)

lemma status_acquire_fails:
  assumes "postgres_pool w = Some p" "acquire_raises (drv w) (log w) = Some err"
    "timeout_or_driver_error err"
  shows "fst (postgres_status w) = Inr \<lparr>available = False, pool_size = size' p, pool_free = freesize p\<rparr>"
  using assms by (simp add: status_defs emit_fields)

lemma status_execute_fails:
  assumes "postgres_pool w = Some p" "acquire_raises (drv w) (log w) = None"
    "cursor_raises (drv w) (log w @ [PoolAcquire]) = None"
    "call_response (drv w) (log w @ [PoolAcquire, ConnCursor (Suc (length (log w))) (Some 3)])
       (Execute ''SELECT 1'' NoParameters) 3 = Inl err"
    "timeout_or_driver_error err"
  shows "fst (postgres_status w) =
     Inr \<lparr>available = False,
          pool_size = size' (give_connection (isinstance_TimeoutError err) (take_connection p)),
          pool_free = freesize (give_connection (isinstance_TimeoutError err) (take_connection p))\<rparr>"
  using assms
  by (simp add: postgres_status_def postgres_connector_def acquire_scope_def with_user_def
        status_body_def status_on_error_def POSTGRES_STATUS_TIMEOUT_def pool_acquire_def
        pool_release_def conn_cursor_def cursor_close_def PostgresConnector_init_def
        emit_fields execute_def query_def cursor_call_def Let_def connection_closed_emit
        connection_closed_fields)

lemma status_statement_times_out:
  "fst (postgres_status world_slow) = Inr \<lparr>available = False, pool_size = 0, pool_free = 0\<rparr>"
  by (simp add: status_defs world_slow_def run_defs)

text \<open>
  Claim C5 says that \<^verbatim>\<open>postgres_status\<close> never raises. On an application whose pool
  was never set up (\<^verbatim>\<open>_postgres_pool\<close> is \<^verbatim>\<open>None\<close>), \<^verbatim>\<open>postgres_status\<close> raises
  \<^verbatim>\<open>AttributeError\<close>: the \<^verbatim>\<open>except\<close> clause of \<^verbatim>\<open>postgres_connector\<close> catches
  timeouts and driver errors only. The lemmas above show what holds with a pool: a
  timeout or driver error from \<^verbatim>\<open>acquire()\<close> or from the statement gives
  \<^verbatim>\<open>available: False\<close> with the pool's size and free count, a connection that a
  timeout closed being dropped from the pool.
\<close>

theorem C5_status_raises_without_pool: "postgres_status world_unstarted =
   (Inl (AttributeError ''NoneType object has no attribute acquire''), world_unstarted)"
  by (simp add: status_defs world_unstarted_def world_up_def timeout_or_driver_error_def)

text \<open>
  Claim C8. \<^verbatim>\<open>_postgres_shutdown\<close> without a pool returns without doing anything.
  With a pool that is closed or has no connection in use it returns without an error;
  whenever it returns, it has not raised and the pool is closed, and a second call
  right after it returns without an error and leaves the pool closed as it was.
\<close>

theorem C8_shutdown_idempotent:
  fixes w :: "'u world"
  shows
  "(postgres_pool w = None \<longrightarrow> postgres_shutdown w = Some (Inr (), w))
   \<and> (postgres_pool w = Some p \<and> (closed p \<or> size' p \<le> freesize p) \<longrightarrow>
        (\<exists>wa. postgres_shutdown w = Some (Inr (), wa)))
   \<and> (postgres_pool w = Some p \<and> postgres_shutdown w = Some (r, w') \<longrightarrow>
        r = Inr () \<and> pool_is_closed w'
        \<and> (\<exists>w''. postgres_shutdown w' = Some (Inr (), w'') \<and> pool_is_closed w''
               \<and> postgres_pool w'' = postgres_pool w'))"
  by (auto simp: postgres_shutdown_def pool_wait_closed_def pool_close_def pool_is_closed_def
        emit_fields split: option.splits sum.splits if_splits)

theorem C8_shutdown_idempotent_witness:
  "postgres_shutdown world_unstarted = Some (Inr (), world_unstarted)
   \<and> (\<exists>w' w''. postgres_shutdown world_up = Some (Inr (), w') \<and> pool_is_closed w'
         \<and> postgres_shutdown w' = Some (Inr (), w'') \<and> pool_is_closed w'')"
proof -
  have h0: "postgres_pool world_unstarted = None"
    by (simp add: world_unstarted_def)
  have h1: "postgres_pool world_up = Some open_pool \<and> (closed open_pool \<or> size' open_pool \<le> freesize open_pool)"
    by (simp add: world_up_def open_pool_def)
  obtain wa where wa: "postgres_shutdown world_up = Some (Inr (), wa)"
    using C8_shutdown_idempotent [where w = world_up and p = open_pool] h1 by blast
  have "pool_is_closed wa \<and> (\<exists>w''. postgres_shutdown wa = Some (Inr (), w'') \<and> pool_is_closed w'')"
    using C8_shutdown_idempotent [where w = world_up and p = open_pool and r = "Inr ()" and w' = wa] h1 wa by blast
  then show ?thesis
    using C8_shutdown_idempotent [where w = world_unstarted] h0 wa by blast
qed

end
